theory Spec2Isabelle
  imports Complex_Main "HOL-Library.Multiset"
begin

section \<open>JavaScript values, strings and exceptions\<close>

text \<open>
  The plugin (src/code.js, and the other states of it kept in src/unnamed) is JavaScript run
  inside the Figma plugin sandbox. The values it
  inspects dynamically (\<open>typeof v === 'number'\<close>, \<open>v !== undefined\<close>, \<open>x || 0\<close>) are
  modelled by \<open>jsval\<close>. The program does no arithmetic, so a finite number is a real;
  \<open>JNaN\<close> and the two infinities \<open>JInf\<close> (\<open>True\<close> for the positive one) are the
  numbers that are not finite. \<open>JAlias i\<close> is the object
  \<open>{type: 'VARIABLE_ALIAS', id: i}\<close> and \<open>JObject\<close> any other object.
  Strings are lists of 8-bit code points (Latin-1), which covers every literal of the program.
\<close>

datatype jsval =
    JUndefined
  | JNull
  | JBool bool
  | JNum real
  | JNaN
  | JInf bool
  | JStr string
  | JAlias string
  | JObject

fun typeof_number :: "jsval \<Rightarrow> bool" where
  "typeof_number (JNum x) = True"
| "typeof_number JNaN = True"
| "typeof_number (JInf b) = True"
| "typeof_number v = False"

fun truthy :: "jsval \<Rightarrow> bool" where
  "truthy JUndefined = False"
| "truthy JNull = False"
| "truthy (JBool b) = b"
| "truthy (JNum x) = (x \<noteq> 0)"
| "truthy JNaN = False"
| "truthy (JInf b) = True"
| "truthy (JStr s) = (s \<noteq> [])"
| "truthy (JAlias i) = True"
| "truthy JObject = True"

text \<open>\<open>s || null\<close> for a string \<open>s\<close>: the empty string is falsy.\<close>

definition or_null :: "string \<Rightarrow> string option" where
  "or_null s = (if s = [] then None else Some s)"

text \<open>
  \<open>String.prototype.trim\<close> removes white space and line terminators at both ends; in the
  8-bit range these are TAB, LF, VT, FF, CR, SPACE and NBSP.
\<close>

definition js_whitespace :: "char \<Rightarrow> bool" where
  "js_whitespace c = (c \<in> set [CHR 0x09, CHR 0x0A, CHR 0x0B, CHR 0x0C, CHR 0x0D, CHR 0x20, CHR 0xA0])"

definition trim :: "string \<Rightarrow> string" where
  "trim s = rev (dropWhile js_whitespace (rev (dropWhile js_whitespace s)))"

text \<open>
  A thrown \<open>Error\<close> object: its \<open>name\<close> and its \<open>message\<close>.
  \<open>e.toString()\<close> follows \<open>Error.prototype.toString\<close>.
\<close>

datatype exn = Exn (exn_name: string) (exn_message: string)

definition exn_toString :: "exn \<Rightarrow> string" where
  "exn_toString e =
     (if exn_name e = [] then exn_message e
      else if exn_message e = [] then exn_name e
      else exn_name e @ '': '' @ exn_message e)"

text \<open>
  The \<open>TypeError\<close> of the engine for a property read or a method call on \<open>undefined\<close>.
  Its message text is engine-defined and the text below only stands for it. The one place
  where it reaches a result is the failure message for a new variable that has no mode.
\<close>

definition typeError :: exn where
  "typeError = Exn ''TypeError'' ''cannot read property of undefined''"

section \<open>The host document model, as the plugin reads it\<close>

record varAlias =
  alias_type :: string
  alias_id :: string

text \<open>
  \<open>node.boundVariables && node.boundVariables.itemSpacing\<close>: absent, an array of aliases,
  or a single alias object.
\<close>

datatype bound = BoundNone | BoundArray "varAlias list" | BoundObject varAlias

record node =
  node_id :: string
  node_name :: string
  node_type :: string
  node_layoutMode :: string
  node_itemSpacing :: jsval
  node_boundItemSpacing :: bound

text \<open>
  A variable as the plugin reads it. An empty \<open>var_variableCollectionId\<close> or
  \<open>var_defaultModeId\<close> stands for a falsy (absent) property; \<open>var_modes\<close> lists the
  \<open>modeId\<close>s, \<open>None\<close> when the property is undefined; \<open>var_valuesByMode\<close> likewise.
  \<open>var_getValueForMode\<close> is the method of that name: missing, throwing when called, or
  answering from a table.
\<close>

datatype hostMethod = NoMethod | ThrowingMethod | Method "(string \<times> jsval) list"

record variable =
  var_id :: string
  var_name :: string
  var_resolvedType :: string
  var_remote :: bool
  var_variableCollectionId :: string
  var_defaultModeId :: string
  var_modes :: "string list option"
  var_valuesByMode :: "(string \<times> jsval) list option"
  var_getValueForMode :: hostMethod

text \<open>
  A variable collection: \<open>coll_type\<close> is its \<open>type\<close> property (empty when absent),
  \<open>coll_modes\<close> the \<open>modeId\<close>s of its modes (\<open>None\<close> when the property is
  undefined), and \<open>coll_addVariable\<close> says whether it has a method \<open>addVariable\<close>.
\<close>

record collection =
  coll_id :: string
  coll_name :: string
  coll_defaultModeId :: string
  coll_type :: string
  coll_modes :: "string list option"
  coll_addVariable :: bool

text \<open>The host operations that may throw, and the fault table of the host says which do.\<close>

datatype hostop =
    Op_getNodeByIdAsync
  | Op_getVariableById
  | Op_getVariableByIdAsync
  | Op_getLocalVariablesAsync
  | Op_getLocalVariableCollectionsAsync
  | Op_createVariable
  | Op_setValueForMode
  | Op_setBoundVariable
  | Op_getLocalVariables
  | Op_addVariable

text \<open>
  The host: \<open>hasVariables\<close> is \<open>figma.variables\<close> being defined; \<open>selection\<close> is
  \<open>figma.currentPage.selection\<close>; \<open>variables\<close> holds every variable the host knows, a
  variable object being referred to by its position in the list (the list only grows);
  \<open>newVariable\<close> is the object \<open>createVariable\<close> hands back, before its name and type are
  filled in; \<open>faults\<close> gives the error of each host operation that throws.
\<close>

record host =
  hasVariables :: bool
  nodes :: "node list"
  selection :: "node list"
  variables :: "variable list"
  collections :: "collection list"
  newVariable :: variable
  faults :: "(hostop \<times> exn) list"

section \<open>Results exchanged with the UI\<close>

record gapInfo =
  nodeId :: string
  nodeName :: string
  nodeType :: string
  hasAutoLayout :: bool
  layoutMode :: "string option"
  itemSpacing :: jsval
  itemSpacingToken :: "string option"
  itemSpacingTokenValue :: jsval
  itemSpacingTokenId :: "string option"
  itemSpacingTokenFullPath :: "string option"
  itemSpacingTokenCollectionPath :: "string option"
  error :: "string option"

record token =
  token_id :: string
  token_name :: string
  token_value :: jsval

datatype scanResult =
    ScanFailure string
  | ScanSuccess gapInfo "token list"

datatype linkResult =
    LinkFailure string
  | LinkSuccess string string jsval

fun scan_success :: "scanResult \<Rightarrow> bool" where
  "scan_success (ScanFailure m) = False"
| "scan_success (ScanSuccess g ts) = True"

fun link_success :: "linkResult \<Rightarrow> bool" where
  "link_success (LinkFailure m) = False"
| "link_success (LinkSuccess m n v) = True"

fun link_message :: "linkResult \<Rightarrow> string" where
  "link_message (LinkFailure m) = m"
| "link_message (LinkSuccess m n v) = m"

datatype uiMessage =
    ScanResultMsg scanResult
  | LinkResultMsg linkResult
  | ViewportChangedMsg "string option"


section \<open>The world: host, the plugin's own state, and the calls made\<close>

text \<open>
  The calls on the host API, in the order made. Reads of plain properties are not calls.
\<close>

datatype hostcall =
    Call_getNodeByIdAsync string
  | Call_getVariableById string
  | Call_getVariableByIdAsync string
  | Call_getLocalVariablesAsync
  | Call_getLocalVariableCollectionsAsync
  | Call_createVariable string string
  | Call_setValueForMode nat string jsval
  | Call_setBoundVariable string string varAlias
  | Call_getLocalVariables
  | Call_createVariableIn string string string
  | Call_addVariable string nat
  | Call_postMessage uiMessage
  | Call_closePlugin
  | Call_resize jsval int

text \<open>
  \<open>variableCollectionsCache\<close> is the one module-level \<open>let\<close> of src/code.js
  (\<open>None\<close> is \<open>null\<close>); \<open>calls\<close> is the record of host calls.
\<close>

record world =
  figma :: host
  variableCollectionsCache :: "collection list option"
  calls :: "hostcall list"

text \<open>
  A computation runs on the world and either throws (\<open>Inl\<close>) or returns (\<open>Inr\<close>);
  the world it leaves is kept in both cases, as the effects made before a \<open>throw\<close> are.
\<close>

type_synonym 'a js = "world \<Rightarrow> (exn + 'a) \<times> world"

definition js_return :: "'a \<Rightarrow> 'a js" where
  "js_return x w = (Inr x, w)"

definition js_throw :: "exn \<Rightarrow> 'a js" where
  "js_throw e w = (Inl e, w)"

definition js_bind :: "'a js \<Rightarrow> ('a \<Rightarrow> 'b js) \<Rightarrow> 'b js" where
  "js_bind m f w = (case m w of (Inl e, w') \<Rightarrow> (Inl e, w') | (Inr x, w') \<Rightarrow> f x w')"

definition js_try :: "'a js \<Rightarrow> (exn \<Rightarrow> 'a js) \<Rightarrow> 'a js" where
  "js_try m h w = (case m w of (Inl e, w') \<Rightarrow> h e w' | (Inr x, w') \<Rightarrow> (Inr x, w'))"

text \<open>
  A host call is recorded, then throws if the fault table says so, leaving the host as it
  was, and otherwise acts on the host.
\<close>

definition host_call :: "hostop \<Rightarrow> hostcall \<Rightarrow> (host \<Rightarrow> 'a \<times> host) \<Rightarrow> 'a js" where
  "host_call op c f w =
     (let w1 = w\<lparr>calls := calls w @ [c]\<rparr> in
      case map_of (faults (figma w)) op of
        Some e \<Rightarrow> (Inl e, w1)
      | None \<Rightarrow> (case f (figma w) of (x, h') \<Rightarrow> (Inr x, w1\<lparr>figma := h'\<rparr>)))"

text \<open>A call on \<open>figma.variables\<close>: a \<open>TypeError\<close> when \<open>figma.variables\<close> is undefined.\<close>

definition variables_call :: "hostop \<Rightarrow> hostcall \<Rightarrow> (host \<Rightarrow> 'a \<times> host) \<Rightarrow> 'a js" where
  "variables_call op c f w =
     (if hasVariables (figma w) then host_call op c f w else js_throw typeError w)"

section \<open>The host API\<close>

fun lookup_index :: "('a \<Rightarrow> bool) \<Rightarrow> 'a list \<Rightarrow> nat option" where
  "lookup_index P [] = None"
| "lookup_index P (x # xs) = (if P x then Some 0 else map_option Suc (lookup_index P xs))"

definition getNodeByIdAsync :: "string \<Rightarrow> node option js" where
  "getNodeByIdAsync i =
     host_call Op_getNodeByIdAsync (Call_getNodeByIdAsync i)
       (\<lambda>h. (find (\<lambda>n. node_id n = i) (nodes h), h))"

text \<open>\<open>figma.variables.getVariableById\<close>: the variable object, as its position.\<close>

definition getVariableById :: "string \<Rightarrow> nat option js" where
  "getVariableById i =
     variables_call Op_getVariableById (Call_getVariableById i)
       (\<lambda>h. (lookup_index (\<lambda>v. var_id v = i) (variables h), h))"

definition getVariableByIdAsync :: "string \<Rightarrow> variable option js" where
  "getVariableByIdAsync i =
     variables_call Op_getVariableByIdAsync (Call_getVariableByIdAsync i)
       (\<lambda>h. (find (\<lambda>v. var_id v = i) (variables h), h))"

text \<open>\<open>figma.variables.getLocalVariablesAsync\<close>: the local variables, each with its position.\<close>

definition getLocalVariablesAsync :: "(nat \<times> variable) list js" where
  "getLocalVariablesAsync =
     variables_call Op_getLocalVariablesAsync Call_getLocalVariablesAsync
       (\<lambda>h. (filter (\<lambda>(i, v). \<not> var_remote v) (enumerate 0 (variables h)), h))"

definition getLocalVariableCollectionsAsync :: "collection list js" where
  "getLocalVariableCollectionsAsync =
     variables_call Op_getLocalVariableCollectionsAsync Call_getLocalVariableCollectionsAsync
       (\<lambda>h. (collections h, h))"

definition createVariable :: "string \<Rightarrow> string \<Rightarrow> nat js" where
  "createVariable name ty =
     variables_call Op_createVariable (Call_createVariable name ty)
       (\<lambda>h. (length (variables h),
              h\<lparr>variables := variables h @
                  [(newVariable h)\<lparr>var_name := name, var_resolvedType := ty, var_remote := False\<rparr>]\<rparr>))"

fun update_value :: "string \<Rightarrow> jsval \<Rightarrow> (string \<times> jsval) list \<Rightarrow> (string \<times> jsval) list" where
  "update_value m x [] = [(m, x)]"
| "update_value m x ((k, y) # kvs) = (if k = m then (m, x) # kvs else (k, y) # update_value m x kvs)"

definition store_value :: "string \<Rightarrow> jsval \<Rightarrow> variable \<Rightarrow> variable" where
  "store_value m x v =
     v\<lparr>var_valuesByMode := Some (update_value m x (case var_valuesByMode v of None \<Rightarrow> [] | Some t \<Rightarrow> t)),
       var_getValueForMode :=
         (case var_getValueForMode v of
            Method t \<Rightarrow> Method (update_value m x t)
          | other \<Rightarrow> other)\<rparr>"

text \<open>\<open>variable.setValueForMode(modeId, value)\<close> on the variable object at position \<open>vi\<close>.\<close>

definition setValueForMode :: "nat \<Rightarrow> string \<Rightarrow> jsval \<Rightarrow> unit js" where
  "setValueForMode vi m x =
     host_call Op_setValueForMode (Call_setValueForMode vi m x)
       (\<lambda>h. ((), h\<lparr>variables := (variables h)[vi := store_value m x (variables h ! vi)]\<rparr>))"

definition bind_node :: "string \<Rightarrow> varAlias \<Rightarrow> node \<Rightarrow> node" where
  "bind_node i a n = (if node_id n = i then n\<lparr>node_boundItemSpacing := BoundObject a\<rparr> else n)"

text \<open>
  \<open>node.setBoundVariable('itemSpacing', alias)\<close> on the node of id \<open>i\<close>; the selection
  holds the same node objects as the document.
\<close>

definition setBoundVariable :: "string \<Rightarrow> string \<Rightarrow> varAlias \<Rightarrow> unit js" where
  "setBoundVariable i prop a =
     host_call Op_setBoundVariable (Call_setBoundVariable i prop a)
       (\<lambda>h. ((), h\<lparr>nodes := map (bind_node i a) (nodes h),
                    selection := map (bind_node i a) (selection h)\<rparr>))"


definition closePlugin :: "unit js" where
  "closePlugin w = (Inr (), w\<lparr>calls := calls w @ [Call_closePlugin]\<rparr>)"

text \<open>
  Reads of a variable object: \<open>v.getValueForMode(m)\<close> and \<open>v.valuesByMode[m]\<close>. The
  program catches what the method throws without looking at it, so one error stands for all.
\<close>

definition table_get :: "(string \<times> jsval) list \<Rightarrow> string \<Rightarrow> jsval" where
  "table_get t m = (case map_of t m of None \<Rightarrow> JUndefined | Some x \<Rightarrow> x)"

definition getValueForMode :: "variable \<Rightarrow> string \<Rightarrow> exn + jsval" where
  "getValueForMode v m =
     (case var_getValueForMode v of
        Method t \<Rightarrow> Inr (table_get t m)
      | _ \<Rightarrow> Inl typeError)"

section \<open>src/code.js: the read path\<close>

text \<open>\<open>isFrameOrAutoLayout\<close> (src/code.js, lines 6-8).\<close>

definition isFrameOrAutoLayout :: "node \<Rightarrow> bool" where
  "isFrameOrAutoLayout n =
     (node_type n \<in> set [''FRAME'', ''COMPONENT'', ''COMPONENT_SET'', ''INSTANCE''])"

definition set_cache :: "collection list option \<Rightarrow> unit js" where
  "set_cache c w = (Inr (), w\<lparr>variableCollectionsCache := c\<rparr>)"

text \<open>
  \<open>getAllVariableCollections\<close> (lines 14-39). An array is truthy even when empty, so a
  cached empty list is a hit.
\<close>

definition getAllVariableCollections :: "collection list js" where
  "getAllVariableCollections =
     js_try
       (\<lambda>w. case variableCollectionsCache w of
               Some cached \<Rightarrow> js_return cached w
             | None \<Rightarrow>
                 if \<not> hasVariables (figma w) then js_return [] w
                 else js_try
                        (js_bind getLocalVariableCollectionsAsync (\<lambda>cs.
                         js_bind (set_cache (Some cs)) (\<lambda>_.
                         js_return cs)))
                        (\<lambda>e. js_bind (set_cache (Some [])) (\<lambda>_. js_return []))
                        w)
       (\<lambda>e. js_return [])"

text \<open>What a fetch of the collections yields: the host's list, or the empty list when the call throws.\<close>

definition fetched :: "host \<Rightarrow> collection list" where
  "fetched h =
     (case map_of (faults h) Op_getLocalVariableCollectionsAsync of
        Some e \<Rightarrow> []
      | None \<Rightarrow> collections h)"

definition msg_no_autolayout_selected :: string where
  "msg_no_autolayout_selected = ''El elemento seleccionado no tiene AutoLayout habilitado''"

definition msg_variable_not_found :: string where
  "msg_variable_not_found = ''Variable no encontrada''"

definition msg_resolve_error :: string where
  "msg_resolve_error = ''Error al resolver el token: ''"

text \<open>The record returned for a node without AutoLayout (lines 240-251).\<close>

definition noAutoLayoutInfo :: "node \<Rightarrow> gapInfo" where
  "noAutoLayoutInfo n =
     \<lparr>nodeId = node_id n, nodeName = node_name n, nodeType = node_type n,
      hasAutoLayout = False, layoutMode = None, itemSpacing = JNull,
      itemSpacingToken = None, itemSpacingTokenValue = JNull, itemSpacingTokenId = None,
      itemSpacingTokenFullPath = None, itemSpacingTokenCollectionPath = None,
      error = Some msg_no_autolayout_selected\<rparr>"

text \<open>The initial \<open>gapInfo\<close> (lines 254-269).\<close>

definition initialGapInfo :: "node \<Rightarrow> gapInfo" where
  "initialGapInfo n =
     \<lparr>nodeId = node_id n, nodeName = node_name n, nodeType = node_type n,
      hasAutoLayout = True, layoutMode = Some (node_layoutMode n),
      itemSpacing = node_itemSpacing n,
      itemSpacingToken = None, itemSpacingTokenValue = JNull, itemSpacingTokenId = None,
      itemSpacingTokenFullPath = None, itemSpacingTokenCollectionPath = None,
      error = None\<rparr>"

text \<open>
  The alias taken from \<open>boundGap\<close> (lines 275-284): the first element of a non-empty
  array, or the object itself when its type is \<open>'VARIABLE_ALIAS'\<close>; it is used only when
  its type is \<open>'VARIABLE_ALIAS'\<close> and its id is truthy.
\<close>

definition boundAlias :: "bound \<Rightarrow> varAlias option" where
  "boundAlias b =
     (case (case b of
              BoundNone \<Rightarrow> None
            | BoundArray [] \<Rightarrow> None
            | BoundArray (a # rest) \<Rightarrow> Some a
            | BoundObject a \<Rightarrow> (if alias_type a = ''VARIABLE_ALIAS'' then Some a else None)) of
        None \<Rightarrow> None
      | Some a \<Rightarrow> (if alias_type a = ''VARIABLE_ALIAS'' \<and> alias_id a \<noteq> [] then Some a else None))"

text \<open>
  \<open>variable.modes[0].modeId\<close> when there is a first mode, else \<open>null\<close> (here the empty,
  falsy string).
\<close>

definition firstModeId :: "variable \<Rightarrow> string" where
  "firstModeId v = (case var_modes v of Some (m # ms) \<Rightarrow> m | _ \<Rightarrow> [])"

text \<open>The mode whose value is shown (lines 326-328).\<close>

definition resolveModeId :: "collection option \<Rightarrow> variable \<Rightarrow> string" where
  "resolveModeId c v =
     (case c of
        Some col \<Rightarrow>
          (if coll_defaultModeId col \<noteq> [] then coll_defaultModeId col
           else if var_defaultModeId v \<noteq> [] then var_defaultModeId v else firstModeId v)
      | None \<Rightarrow> (if var_defaultModeId v \<noteq> [] then var_defaultModeId v else firstModeId v))"

text \<open>The value in that mode (lines 325-332).\<close>

definition resolveValue :: "string \<Rightarrow> variable \<Rightarrow> jsval" where
  "resolveValue m v =
     (case var_valuesByMode v of
        Some t \<Rightarrow> (if m \<noteq> [] \<and> table_get t m \<noteq> JUndefined then table_get t m else JNull)
      | None \<Rightarrow> JNull)"

text \<open>The token fields written into \<open>gapInfo\<close> (lines 334-347).\<close>

definition withToken :: "gapInfo \<Rightarrow> variable \<Rightarrow> collection option \<Rightarrow> gapInfo" where
  "withToken g v c =
     (let collectionName = (case c of Some col \<Rightarrow> or_null (coll_name col) | None \<Rightarrow> None);
          resolvedValue = resolveValue (resolveModeId c v) v;
          fullPath = (case collectionName of
                        Some cn \<Rightarrow> cn @ ''/'' @ var_name v
                      | None \<Rightarrow> (if var_variableCollectionId v \<noteq> []
                                 then var_variableCollectionId v @ ''/'' @ var_name v
                                 else var_name v))
      in g\<lparr>itemSpacingToken := or_null (var_name v),
           itemSpacingTokenValue := (if typeof_number resolvedValue then resolvedValue else JNull),
           itemSpacingTokenId := or_null (var_id v),
           itemSpacingTokenFullPath := (if fullPath \<noteq> [] then Some fullPath else or_null (var_name v)),
           itemSpacingTokenCollectionPath :=
             (case collectionName of Some cn \<Rightarrow> Some cn | None \<Rightarrow> or_null (var_variableCollectionId v))\<rparr>)"

text \<open>The collection of the variable (lines 307-322).\<close>

definition findCollection :: "variable \<Rightarrow> collection option js" where
  "findCollection v =
     (if var_variableCollectionId v \<noteq> [] then
        js_try
          (js_bind getAllVariableCollections (\<lambda>cs.
           js_return (find (\<lambda>c. coll_id c = var_variableCollectionId v) cs)))
          (\<lambda>e. js_return None)
      else js_return None)"

text \<open>\<open>e.message || e.toString()\<close>.\<close>

definition exn_text :: "exn \<Rightarrow> string" where
  "exn_text e = (if exn_message e \<noteq> [] then exn_message e else exn_toString e)"

text \<open>\<open>getGapInfo\<close> (lines 232-373); \<open>None\<close> is the \<open>null\<close> returned for a node of another type.\<close>

definition getGapInfo :: "node \<Rightarrow> gapInfo option js" where
  "getGapInfo n =
     (if \<not> isFrameOrAutoLayout n then js_return None
      else if node_layoutMode n = ''NONE'' then js_return (Some (noAutoLayoutInfo n))
      else
        (case boundAlias (node_boundItemSpacing n) of
           Some a \<Rightarrow>
             js_try
               (js_bind (getVariableByIdAsync (alias_id a)) (\<lambda>found.
                  case found of
                    None \<Rightarrow> js_return (Some ((initialGapInfo n)\<lparr>error := Some msg_variable_not_found\<rparr>))
                  | Some v \<Rightarrow>
                      js_bind (findCollection v) (\<lambda>c.
                      js_return (Some (withToken (initialGapInfo n) v c)))))
               (\<lambda>e. js_return (Some ((initialGapInfo n)\<lparr>error := Some (msg_resolve_error @ exn_text e)\<rparr>)))
         | None \<Rightarrow> js_return (Some (initialGapInfo n))))"

text \<open>
  \<open>Array.prototype.sort\<close> with a comparison function: a stable sort, here by insertion.
  The comparison \<open>a.name.localeCompare(b.name)\<close> is the engine's collation and is a
  parameter \<open>lc\<close> of everything that sorts.
\<close>

fun insert_sorted :: "('a \<Rightarrow> 'a \<Rightarrow> int) \<Rightarrow> 'a \<Rightarrow> 'a list \<Rightarrow> 'a list" where
  "insert_sorted cmp x [] = [x]"
| "insert_sorted cmp x (y # ys) =
     (if cmp x y \<le> 0 then x # y # ys else y # insert_sorted cmp x ys)"

fun array_sort :: "('a \<Rightarrow> 'a \<Rightarrow> int) \<Rightarrow> 'a list \<Rightarrow> 'a list" where
  "array_sort cmp [] = []"
| "array_sort cmp (x # xs) = insert_sorted cmp x (array_sort cmp xs)"

text \<open>The entry built for one variable (lines 382-404).\<close>

definition tokenOf :: "variable \<Rightarrow> token" where
  "tokenOf v =
     (let value =
        (case var_modes v of
           Some (m # ms) \<Rightarrow>
             (case getValueForMode v m of
                Inr x \<Rightarrow> x
              | Inl e \<Rightarrow>
                  (case var_valuesByMode v of
                     Some t \<Rightarrow> (if table_get t m \<noteq> JUndefined then table_get t m else JNull)
                   | None \<Rightarrow> JNull))
         | _ \<Rightarrow> JNull)
      in \<lparr>token_id = var_id v, token_name = var_name v,
          token_value = (if typeof_number value then value else JNull)\<rparr>)"

text \<open>\<open>getAvailableTokens\<close> (lines 376-409).\<close>

definition getAvailableTokens :: "(string \<Rightarrow> string \<Rightarrow> int) \<Rightarrow> token list js" where
  "getAvailableTokens lc =
     js_try
       (\<lambda>w. if \<not> hasVariables (figma w) then js_return [] w
            else js_bind getLocalVariablesAsync (\<lambda>vs.
                 js_return
                   (array_sort (\<lambda>a b. lc (token_name a) (token_name b))
                      (map tokenOf (filter (\<lambda>v. var_resolvedType v = ''FLOAT'') (map snd vs))))) w)
       (\<lambda>e. js_return [])"

definition msg_select_one :: string where
  "msg_select_one = ''Por favor, selecciona un Frame o AutoLayout para auditar su GAP (itemSpacing)''"

definition msg_select_single :: string where
  "msg_select_single = ''Por favor, selecciona solo un elemento a la vez''"

definition msg_not_frame :: string where
  "msg_not_frame = ''El elemento seleccionado no es un Frame o AutoLayout v'' @ [CHR 0xE1] @ ''lido''"

definition msg_no_info :: string where
  "msg_no_info = ''No se pudo obtener informaci'' @ [CHR 0xF3] @ ''n del elemento seleccionado''"

text \<open>\<open>if (gapInfo.error)\<close>: a non-empty error string.\<close>

definition hasError :: "gapInfo \<Rightarrow> bool" where
  "hasError g = (case error g of Some m \<Rightarrow> m \<noteq> [] | None \<Rightarrow> False)"

text \<open>\<open>scanSelection\<close> (lines 412-474).\<close>

definition scanSelection :: "(string \<Rightarrow> string \<Rightarrow> int) \<Rightarrow> scanResult js" where
  "scanSelection lc w =
     (case selection (figma w) of
        [] \<Rightarrow> js_return (ScanFailure msg_select_one) w
      | n # rest \<Rightarrow>
          if rest \<noteq> [] then js_return (ScanFailure msg_select_single) w
          else if \<not> isFrameOrAutoLayout n then js_return (ScanFailure msg_not_frame) w
          else js_bind (getGapInfo n) (\<lambda>r.
                 case r of
                   None \<Rightarrow> js_return (ScanFailure msg_no_info)
                 | Some g \<Rightarrow>
                     if hasError g then js_return (ScanFailure (the (error g)))
                     else js_bind (getAvailableTokens lc) (\<lambda>ts.
                          js_return (ScanSuccess g ts))) w)"

section \<open>src/code.js: the write path\<close>

definition msg_node_not_found :: string where
  "msg_node_not_found = ''No se pudo encontrar el nodo seleccionado''"

definition msg_no_autolayout :: string where
  "msg_no_autolayout = ''El elemento no tiene AutoLayout habilitado''"

definition msg_no_variables_api :: string where
  "msg_no_variables_api =
     ''La API de Variables no est'' @ [CHR 0xE1] @ '' disponible en tu versi'' @ [CHR 0xF3] @ ''n de Figma''"

definition msg_token_not_found :: string where
  "msg_token_not_found = ''No se pudo encontrar el token seleccionado''"

definition msg_empty_name :: string where
  "msg_empty_name = ''El nombre del token no puede estar vac'' @ [CHR 0xED] @ ''o''"

definition msg_create_error :: string where
  "msg_create_error = ''Error al crear el token: ''"

definition msg_linked :: "string \<Rightarrow> string" where
  "msg_linked name = ''GAP vinculado correctamente al token '' @ [CHR 0x22] @ name @ [CHR 0x22]"

definition msg_only_itemSpacing :: string where
  "msg_only_itemSpacing = ''Solo se puede vincular el itemSpacing (GAP) de elementos con AutoLayout''"

definition msg_error :: string where
  "msg_error = ''Error: ''"

text \<open>\<open>if (tokenId)\<close>: a non-empty string.\<close>

definition given :: "string option \<Rightarrow> bool" where
  "given s = (case s of Some t \<Rightarrow> t \<noteq> [] | None \<Rightarrow> False)"

text \<open>
  \<open>variable.modes[0].modeId\<close> read from the variable object at position \<open>vi\<close>: a
  \<open>TypeError\<close> when \<open>modes\<close> is undefined or empty.
\<close>

definition readFirstMode :: "nat \<Rightarrow> string js" where
  "readFirstMode vi w =
     (case var_modes (variables (figma w) ! vi) of
        Some (m # ms) \<Rightarrow> js_return m w
      | _ \<Rightarrow> js_throw typeError w)"

text \<open>The value given to a new token (lines 520-522).\<close>

definition gapValueFor :: "node \<Rightarrow> jsval \<Rightarrow> jsval" where
  "gapValueFor n tokenValue =
     (if tokenValue \<noteq> JNull \<and> tokenValue \<noteq> JUndefined then tokenValue
      else if truthy (node_itemSpacing n) then node_itemSpacing n else JNum 0)"

text \<open>
  No variable of that name: validate the name and create the token (lines 518-542).
  \<open>Inl\<close> is an early \<open>return\<close> of the whole function, \<open>Inr\<close> the variable object.
\<close>

definition createToken :: "node \<Rightarrow> string option \<Rightarrow> jsval \<Rightarrow> (linkResult + nat) js" where
  "createToken n tokenName tokenValue =
     (let gapValue = gapValueFor n tokenValue in
      case tokenName of
        None \<Rightarrow> js_return (Inl (LinkFailure msg_empty_name))
      | Some name \<Rightarrow>
          if name = [] \<or> trim name = [] then js_return (Inl (LinkFailure msg_empty_name))
          else
            js_try
              (js_bind (createVariable (trim name) ''FLOAT'') (\<lambda>vi.
               js_bind (readFirstMode vi) (\<lambda>m.
               js_bind (setValueForMode vi m gapValue) (\<lambda>_.
               js_return (Inr vi)))))
              (\<lambda>createError.
                 js_return (Inl (LinkFailure (msg_create_error @ exn_message createError)))))"

text \<open>The token to bind: by id, by name, or created (lines 502-543).\<close>

definition resolveToken ::
  "node \<Rightarrow> string option \<Rightarrow> string option \<Rightarrow> jsval \<Rightarrow> (linkResult + nat) js" where
  "resolveToken n tokenName tokenId tokenValue =
     (if given tokenId then
        js_bind (getVariableById (the tokenId)) (\<lambda>found.
          case found of
            None \<Rightarrow> js_return (Inl (LinkFailure msg_token_not_found))
          | Some vi \<Rightarrow> js_return (Inr vi))
      else
        js_bind getLocalVariablesAsync (\<lambda>vs.
          case find (\<lambda>(i, v). Some (var_name v) = tokenName) vs of
            Some (vi, v) \<Rightarrow> js_return (Inr vi)
          | None \<Rightarrow> createToken n tokenName tokenValue))"

text \<open>The token value of the response (lines 555-564).\<close>

definition responseValue :: "variable \<Rightarrow> jsval" where
  "responseValue v =
     (case var_modes v of
        Some (m # ms) \<Rightarrow>
          (case getValueForMode v m of
             Inr x \<Rightarrow> x
           | Inl e \<Rightarrow> (case var_valuesByMode v of Some t \<Rightarrow> table_get t m | None \<Rightarrow> JNull))
      | _ \<Rightarrow> JNull)"

text \<open>Bind the token to the gap and answer (lines 545-577).\<close>

definition applyToken :: "node \<Rightarrow> string \<Rightarrow> nat \<Rightarrow> linkResult js" where
  "applyToken n gapType vi w =
     (let variableAlias = \<lparr>alias_type = ''VARIABLE_ALIAS'', alias_id = var_id (variables (figma w) ! vi)\<rparr> in
      if gapType = ''itemSpacing'' \<and> node_layoutMode n \<noteq> ''NONE'' then
        js_bind (setBoundVariable (node_id n) ''itemSpacing'' variableAlias) (\<lambda>_ w'.
          let v = variables (figma w') ! vi in
          js_return (LinkSuccess (msg_linked (var_name v)) (var_name v) (responseValue v)) w') w
      else js_return (LinkFailure msg_only_itemSpacing) w)"

text \<open>\<open>linkGapToToken\<close> (lines 477-584).\<close>

definition linkGapToToken ::
  "string \<Rightarrow> string option \<Rightarrow> string \<Rightarrow> string option \<Rightarrow> jsval \<Rightarrow> linkResult js" where
  "linkGapToToken nodeId' tokenName gapType tokenId tokenValue =
     js_try
       (js_bind (getNodeByIdAsync nodeId') (\<lambda>found.
          case found of
            None \<Rightarrow> js_return (LinkFailure msg_node_not_found)
          | Some n \<Rightarrow>
              if \<not> isFrameOrAutoLayout n then js_return (LinkFailure msg_node_not_found)
              else if node_layoutMode n = ''NONE'' then js_return (LinkFailure msg_no_autolayout)
              else (\<lambda>w.
                if \<not> hasVariables (figma w) then js_return (LinkFailure msg_no_variables_api) w
                else js_bind (resolveToken n tokenName tokenId tokenValue) (\<lambda>r.
                       case r of
                         Inl early \<Rightarrow> js_return early
                       | Inr vi \<Rightarrow> applyToken n gapType vi) w)))
       (\<lambda>e. js_return (LinkFailure (msg_error @ exn_message e)))"

section \<open>src/code.js: the UI message handler\<close>


section \<open>unnamed/part_000: the same plugin with collections\<close>

text \<open>
  The file unnamed/part_000 is a later state of src/code.js: \<open>linkGapToToken\<close> takes a
  \<open>collectionId\<close>, puts a new variable into that collection, and resets the cache.
  Its functions carry the suffix \<open>_p0\<close> here.
\<close>

text \<open>\<open>getDefaultModeId\<close> (part_000, lines 28-30); \<open>null\<close> is the empty string.\<close>

definition getDefaultModeId :: "variable \<Rightarrow> string" where
  "getDefaultModeId v = (if var_defaultModeId v \<noteq> [] then var_defaultModeId v else firstModeId v)"

text \<open>\<open>getVariableValue\<close> (part_000, lines 33-40).\<close>

definition getVariableValue_p0 :: "variable \<Rightarrow> jsval" where
  "getVariableValue_p0 v =
     (let modeId = getDefaultModeId v in
      case var_valuesByMode v of
        Some t \<Rightarrow>
          (if modeId \<noteq> [] \<and> table_get t modeId \<noteq> JUndefined
           then (if typeof_number (table_get t modeId) then table_get t modeId else JNull)
           else JNull)
      | None \<Rightarrow> JNull)"

text \<open>\<open>getAllVariableCollections\<close> (part_000, lines 46-63): as in src/code.js, without the outer \<open>try\<close>.\<close>

definition getAllVariableCollections_p0 :: "collection list js" where
  "getAllVariableCollections_p0 w =
     (case variableCollectionsCache w of
        Some cached \<Rightarrow> js_return cached w
      | None \<Rightarrow>
          if \<not> hasVariables (figma w) then js_return [] w
          else js_try
                 (js_bind getLocalVariableCollectionsAsync (\<lambda>cs.
                  js_bind (set_cache (Some cs)) (\<lambda>_.
                  js_return cs)))
                 (\<lambda>e. js_bind (set_cache (Some [])) (\<lambda>_. js_return []))
                 w)"

text \<open>\<open>createGapInfo\<close> (part_000, lines 11-25).\<close>

definition createGapInfo :: "node \<Rightarrow> gapInfo" where
  "createGapInfo n =
     \<lparr>nodeId = node_id n, nodeName = node_name n, nodeType = node_type n,
      hasAutoLayout = True, layoutMode = Some (node_layoutMode n),
      itemSpacing = node_itemSpacing n,
      itemSpacingToken = None, itemSpacingTokenValue = JNull, itemSpacingTokenId = None,
      itemSpacingTokenFullPath = None, itemSpacingTokenCollectionPath = None,
      error = None\<rparr>"

text \<open>
  The name of the variable's collection (part_000, lines 116-128): the \<open>catch\<close> falls back
  on the collection id.
\<close>

definition collectionName_p0 :: "variable \<Rightarrow> string option js" where
  "collectionName_p0 v =
     (if var_variableCollectionId v \<noteq> [] then
        js_try
          (js_bind getAllVariableCollections_p0 (\<lambda>cs.
             case find (\<lambda>c. coll_id c = var_variableCollectionId v) cs of
               Some c \<Rightarrow> js_return (or_null (coll_name c))
             | None \<Rightarrow> js_return None))
          (\<lambda>e. js_return (Some (var_variableCollectionId v)))
      else js_return None)"

text \<open>The token fields written into \<open>gapInfo\<close> (part_000, lines 130-143).\<close>

definition withToken_p0 :: "gapInfo \<Rightarrow> variable \<Rightarrow> string option \<Rightarrow> gapInfo" where
  "withToken_p0 g v collectionName =
     (let resolvedValue = getVariableValue_p0 v;
          fullPath = (case collectionName of
                        Some cn \<Rightarrow> cn @ ''/'' @ var_name v
                      | None \<Rightarrow> (if var_variableCollectionId v \<noteq> []
                                 then var_variableCollectionId v @ ''/'' @ var_name v
                                 else var_name v))
      in g\<lparr>itemSpacingToken := Some (var_name v),
           itemSpacingTokenValue := (if typeof_number resolvedValue then resolvedValue else JNull),
           itemSpacingTokenId := Some (var_id v),
           itemSpacingTokenFullPath := Some fullPath,
           itemSpacingTokenCollectionPath :=
             (case collectionName of Some cn \<Rightarrow> Some cn | None \<Rightarrow> or_null (var_variableCollectionId v))\<rparr>)"

text \<open>\<open>getGapInfo\<close> (part_000, lines 67-157).\<close>

definition getGapInfo_p0 :: "node \<Rightarrow> gapInfo option js" where
  "getGapInfo_p0 n =
     (if \<not> isFrameOrAutoLayout n then js_return None
      else if node_layoutMode n = ''NONE'' then js_return (Some (noAutoLayoutInfo n))
      else
        (case boundAlias (node_boundItemSpacing n) of
           Some a \<Rightarrow>
             js_try
               (js_bind (getVariableByIdAsync (alias_id a)) (\<lambda>found.
                  case found of
                    None \<Rightarrow> js_return (Some ((createGapInfo n)\<lparr>error := Some msg_variable_not_found\<rparr>))
                  | Some v \<Rightarrow>
                      js_bind (collectionName_p0 v) (\<lambda>cn.
                      js_return (Some (withToken_p0 (createGapInfo n) v cn)))))
               (\<lambda>e. js_return (Some ((createGapInfo n)\<lparr>error := Some (msg_resolve_error @ exn_text e)\<rparr>)))
         | None \<Rightarrow> js_return (Some (createGapInfo n))))"

text \<open>
  \<open>figma.variables.getVariableByIdAsync\<close> once more, answering with the position of the
  variable object: the write path goes on to read the object after other calls.
\<close>

definition getVariableRefByIdAsync :: "string \<Rightarrow> nat option js" where
  "getVariableRefByIdAsync i =
     variables_call Op_getVariableByIdAsync (Call_getVariableByIdAsync i)
       (\<lambda>h. (lookup_index (\<lambda>v. var_id v = i) (variables h), h))"

text \<open>
  \<open>collection.addVariable(variable)\<close>, where the collection has that method: the host
  puts the variable object at position \<open>vi\<close> into the collection.
\<close>

definition addVariable :: "collection \<Rightarrow> nat \<Rightarrow> unit js" where
  "addVariable c vi =
     host_call Op_addVariable (Call_addVariable (coll_id c) vi)
       (\<lambda>h. ((), h\<lparr>variables :=
                     (variables h)[vi := (variables h ! vi)\<lparr>var_variableCollectionId := coll_id c\<rparr>]\<rparr>))"

definition msg_token_error :: string where
  "msg_token_error = ''Error al obtener el token: ''"

text \<open>The collection asked for, when it exists (part_000, lines 300-312).\<close>

definition validCollection_p0 :: "string option \<Rightarrow> string option js" where
  "validCollection_p0 collectionId =
     (if given collectionId then
        js_try
          (js_bind getAllVariableCollections_p0 (\<lambda>cs.
             case find (\<lambda>c. coll_id c = the collectionId) cs of
               Some c \<Rightarrow> js_return collectionId
             | None \<Rightarrow> js_return None))
          (\<lambda>e. js_return None)
      else js_return None)"

text \<open>The new variable is put into the collection (part_000, lines 319-332).\<close>

definition addToCollection_p0 :: "string option \<Rightarrow> nat \<Rightarrow> unit js" where
  "addToCollection_p0 validCollectionId vi =
     (if given validCollectionId then
        js_try
          (js_bind getAllVariableCollections_p0 (\<lambda>cs.
             case find (\<lambda>c. coll_id c = the validCollectionId) cs of
               Some c \<Rightarrow>
                 (if coll_addVariable c
                  then js_bind (addVariable c vi) (\<lambda>_. set_cache None)
                  else js_return ())
             | None \<Rightarrow> js_return ()))
          (\<lambda>e. js_return ())
      else js_return ())"

text \<open>
  No variable of that name: validate, create, and clear the cache (part_000, lines 286-342).
\<close>

definition createToken_p0 ::
  "node \<Rightarrow> string option \<Rightarrow> jsval \<Rightarrow> string option \<Rightarrow> (linkResult + nat) js" where
  "createToken_p0 n tokenName tokenValue collectionId =
     (let gapValue = gapValueFor n tokenValue in
      case tokenName of
        None \<Rightarrow> js_return (Inl (LinkFailure msg_empty_name))
      | Some name \<Rightarrow>
          if name = [] \<or> trim name = [] then js_return (Inl (LinkFailure msg_empty_name))
          else
            js_bind (validCollection_p0 collectionId) (\<lambda>validCollectionId.
            js_bind
              (js_try
                 (js_bind (createVariable (trim name) ''FLOAT'') (\<lambda>vi.
                  js_bind (readFirstMode vi) (\<lambda>m.
                  js_bind (setValueForMode vi m gapValue) (\<lambda>_.
                  js_bind (addToCollection_p0 validCollectionId vi) (\<lambda>_.
                  js_return (Inr vi))))))
                 (\<lambda>createError.
                    js_return (Inl (LinkFailure (msg_create_error @ exn_message createError)))))
              (\<lambda>r. case r of
                     Inl early \<Rightarrow> js_return (Inl early)
                   | Inr vi \<Rightarrow> js_bind (set_cache None) (\<lambda>_. js_return (Inr vi)))))"

text \<open>The token to bind (part_000, lines 263-343).\<close>

definition resolveToken_p0 ::
  "node \<Rightarrow> string option \<Rightarrow> string option \<Rightarrow> jsval \<Rightarrow> string option \<Rightarrow> (linkResult + nat) js" where
  "resolveToken_p0 n tokenName tokenId tokenValue collectionId =
     (if given tokenId then
        js_try
          (js_bind (getVariableRefByIdAsync (the tokenId)) (\<lambda>found.
             case found of
               None \<Rightarrow> js_return (Inl (LinkFailure msg_token_not_found))
             | Some vi \<Rightarrow> js_return (Inr vi)))
          (\<lambda>e. js_return (Inl (LinkFailure (msg_token_error @ exn_text e))))
      else
        js_bind getLocalVariablesAsync (\<lambda>vs.
          case find (\<lambda>(i, v). Some (var_name v) = tokenName) vs of
            Some (vi, v) \<Rightarrow> js_return (Inr vi)
          | None \<Rightarrow> createToken_p0 n tokenName tokenValue collectionId))"

text \<open>Bind the token to the gap and answer (part_000, lines 345-368).\<close>

definition applyToken_p0 :: "node \<Rightarrow> string \<Rightarrow> nat \<Rightarrow> linkResult js" where
  "applyToken_p0 n gapType vi w =
     (let variableAlias = \<lparr>alias_type = ''VARIABLE_ALIAS'', alias_id = var_id (variables (figma w) ! vi)\<rparr> in
      if gapType = ''itemSpacing'' \<and> node_layoutMode n \<noteq> ''NONE'' then
        js_bind (setBoundVariable (node_id n) ''itemSpacing'' variableAlias) (\<lambda>_ w'.
          let v = variables (figma w') ! vi in
          js_return (LinkSuccess (msg_linked (var_name v)) (var_name v) (getVariableValue_p0 v)) w') w
      else js_return (LinkFailure msg_only_itemSpacing) w)"

text \<open>\<open>linkGapToToken\<close> (part_000, lines 238-375).\<close>

definition linkGapToToken_p0 ::
  "string \<Rightarrow> string option \<Rightarrow> string \<Rightarrow> string option \<Rightarrow> jsval \<Rightarrow> string option \<Rightarrow> linkResult js" where
  "linkGapToToken_p0 nodeId' tokenName gapType tokenId tokenValue collectionId =
     js_try
       (js_bind (getNodeByIdAsync nodeId') (\<lambda>found.
          case found of
            None \<Rightarrow> js_return (LinkFailure msg_node_not_found)
          | Some n \<Rightarrow>
              if \<not> isFrameOrAutoLayout n then js_return (LinkFailure msg_node_not_found)
              else if node_layoutMode n = ''NONE'' then js_return (LinkFailure msg_no_autolayout)
              else (\<lambda>w.
                if \<not> hasVariables (figma w) then js_return (LinkFailure msg_no_variables_api) w
                else js_bind (resolveToken_p0 n tokenName tokenId tokenValue collectionId) (\<lambda>r.
                       case r of
                         Inl early \<Rightarrow> js_return early
                       | Inr vi \<Rightarrow> applyToken_p0 n gapType vi) w)))
       (\<lambda>e. js_return (LinkFailure (msg_error @ exn_message e)))"

section \<open>unnamed/part_002: the plugin with collection modes and viewports\<close>

text \<open>
  The third document of the file unnamed/part_002 (lines 255-1043) is a later state of the
  plugin: \<open>linkGapToToken\<close> creates the variable inside the collection and writes its value
  in the modes of the collection, and the message handler knows a fourth message. Its
  functions carry the suffix \<open>_p2\<close> here. \<open>getDefaultModeId\<close> (lines 282-284) has the text
  it has in unnamed/part_000.
\<close>

























section \<open>unnamed/part_003: an older, synchronous state of the plugin\<close>

text \<open>
  The file unnamed/part_003 reads the variables with the synchronous host calls. Its
  functions carry the suffix \<open>_p3\<close> here.
\<close>

text \<open>\<open>figma.variables.getLocalVariables\<close>: the local variables, each with its position.\<close>

definition getLocalVariables :: "(nat \<times> variable) list js" where
  "getLocalVariables =
     variables_call Op_getLocalVariables Call_getLocalVariables
       (\<lambda>h. (filter (\<lambda>(i, v). \<not> var_remote v) (enumerate 0 (variables h)), h))"

text \<open>
  The entry built for one variable (part_003, line 97): an object with the properties
  \<open>id\<close> and \<open>name\<close> only, so that reading its \<open>value\<close> gives \<open>undefined\<close>.
\<close>

definition tokenOf_p3 :: "variable \<Rightarrow> token" where
  "tokenOf_p3 v = \<lparr>token_id = var_id v, token_name = var_name v, token_value = JUndefined\<rparr>"

text \<open>\<open>getAvailableTokens\<close> (part_003, lines 92-103).\<close>

definition getAvailableTokens_p3 :: "(string \<Rightarrow> string \<Rightarrow> int) \<Rightarrow> token list js" where
  "getAvailableTokens_p3 lc =
     js_try
       (\<lambda>w. if \<not> hasVariables (figma w) then js_return [] w
            else js_bind getLocalVariables (\<lambda>vs.
                 js_return
                   (array_sort (\<lambda>a b. lc (token_name a) (token_name b))
                      (map tokenOf_p3 (filter (\<lambda>v. var_resolvedType v = ''FLOAT'') (map snd vs))))) w)
       (\<lambda>e. js_return [])"

section \<open>Notions used to state the properties\<close>

text \<open>What \<open>getAllVariableCollections\<close> answers in a world: the cache, or what a fetch yields.\<close>

definition cachedCollections :: "world \<Rightarrow> collection list" where
  "cachedCollections w =
     (case variableCollectionsCache w of
        Some cs \<Rightarrow> cs
      | None \<Rightarrow> if hasVariables (figma w) then fetched (figma w) else [])"

text \<open>The host calls that write to the document, to a node or to a variable.\<close>

fun is_write :: "hostcall \<Rightarrow> bool" where
  "is_write (Call_createVariable n t) = True"
| "is_write (Call_setValueForMode vi m x) = True"
| "is_write (Call_setBoundVariable i p a) = True"
| "is_write (Call_createVariableIn n c t) = True"
| "is_write (Call_addVariable c vi) = True"
| "is_write c = False"

text \<open>The calls that reach the UI or end the plugin.\<close>

fun is_ui :: "hostcall \<Rightarrow> bool" where
  "is_ui (Call_postMessage m) = True"
| "is_ui Call_closePlugin = True"
| "is_ui (Call_resize x y) = True"
| "is_ui c = False"


text \<open>The entries of the local variables of type \<open>FLOAT\<close>, in the host's order.\<close>

definition floatTokens :: "host \<Rightarrow> token list" where
  "floatTokens h =
     map tokenOf (filter (\<lambda>v. var_resolvedType v = ''FLOAT'')
                    (filter (\<lambda>v. \<not> var_remote v) (variables h)))"

text \<open>The host operation that a recorded call is a call of; the UI calls are none of them.\<close>

fun op_of :: "hostcall \<Rightarrow> hostop option" where
  "op_of (Call_getNodeByIdAsync i) = Some Op_getNodeByIdAsync"
| "op_of (Call_getVariableById i) = Some Op_getVariableById"
| "op_of (Call_getVariableByIdAsync i) = Some Op_getVariableByIdAsync"
| "op_of Call_getLocalVariablesAsync = Some Op_getLocalVariablesAsync"
| "op_of Call_getLocalVariableCollectionsAsync = Some Op_getLocalVariableCollectionsAsync"
| "op_of (Call_createVariable n t) = Some Op_createVariable"
| "op_of (Call_setValueForMode vi m x) = Some Op_setValueForMode"
| "op_of (Call_setBoundVariable i p a) = Some Op_setBoundVariable"
| "op_of Call_getLocalVariables = Some Op_getLocalVariables"
| "op_of (Call_createVariableIn n c t) = Some Op_createVariable"
| "op_of (Call_addVariable c vi) = Some Op_addVariable"
| "op_of (Call_postMessage m) = None"
| "op_of Call_closePlugin = None"
| "op_of (Call_resize x y) = None"

text \<open>The call throws on this host.\<close>

definition threw :: "host \<Rightarrow> hostcall \<Rightarrow> bool" where
  "threw h c = (case op_of c of None \<Rightarrow> False | Some op \<Rightarrow> map_of (faults h) op \<noteq> None)"

text \<open>The binding step: a call of \<open>setBoundVariable\<close>.\<close>

fun is_bind :: "hostcall \<Rightarrow> bool" where
  "is_bind (Call_setBoundVariable i p a) = True"
| "is_bind c = False"

text \<open>
  The variable object at position \<open>vi\<close> of the world \<open>w1\<close> has been resolved by a call to
  \<open>linkGapToToken\<close> that started in \<open>w\<close> and has made the calls \<open>pre\<close>: it was looked
  up by the token id, or found by the token name among the local variables, or created.
\<close>

definition token_resolved ::
  "world \<Rightarrow> string option \<Rightarrow> string option \<Rightarrow> hostcall list \<Rightarrow> world \<Rightarrow> nat \<Rightarrow> bool" where
  "token_resolved w tn tid pre w1 vi \<longleftrightarrow>
     vi < length (variables (figma w1)) \<and>
     (given tid \<and> Call_getVariableById (the tid) \<in> set pre \<and>
        variables (figma w1) = variables (figma w) \<and>
        var_id (variables (figma w) ! vi) = the tid
      \<or> \<not> given tid \<and> Call_getLocalVariablesAsync \<in> set pre \<and>
        variables (figma w1) = variables (figma w) \<and>
        tn = Some (var_name (variables (figma w) ! vi)) \<and>
        \<not> var_remote (variables (figma w) ! vi)
      \<or> \<not> given tid \<and> Call_createVariable (trim (the tn)) ''FLOAT'' \<in> set pre \<and>
        vi = length (variables (figma w)) \<and>
        length (variables (figma w1)) = Suc (length (variables (figma w))))"

text \<open>
  What every step of the write path of src/code.js keeps: the calls \<open>d\<close> are appended, and
  the cache and the host's API, fault table, collections and variable template stay.
\<close>

definition frame :: "world \<Rightarrow> hostcall list \<Rightarrow> world \<Rightarrow> bool" where
  "frame w d w' \<longleftrightarrow>
     calls w' = calls w @ d \<and>
     variableCollectionsCache w' = variableCollectionsCache w \<and>
     hasVariables (figma w') = hasVariables (figma w) \<and>
     faults (figma w') = faults (figma w) \<and>
     newVariable (figma w') = newVariable (figma w) \<and>
     collections (figma w') = collections (figma w)"

text \<open>The world right after a successful \<open>createVariable(name, 'FLOAT')\<close>.\<close>

definition created :: "string \<Rightarrow> world \<Rightarrow> world" where
  "created name w =
     w\<lparr>calls := calls w @ [Call_createVariable name ''FLOAT''],
       figma := (figma w)\<lparr>variables := variables (figma w) @
          [(newVariable (figma w))\<lparr>var_name := name, var_resolvedType := ''FLOAT'',
             var_remote := False\<rparr>]\<rparr>\<rparr>"

section \<open>A small document, for the concrete instances below\<close>

definition example_node :: node where
  "example_node =
     \<lparr>node_id = ''1:2'', node_name = ''Card'', node_type = ''FRAME'',
      node_layoutMode = ''VERTICAL'', node_itemSpacing = JNum 8,
      node_boundItemSpacing = BoundNone\<rparr>"

definition example_variable :: variable where
  "example_variable =
     \<lparr>var_id = ''VariableID:1:7'', var_name = ''spacing-md'', var_resolvedType = ''FLOAT'',
      var_remote = False, var_variableCollectionId = ''VariableCollectionId:1:1'',
      var_defaultModeId = [], var_modes = Some [''1:0''],
      var_valuesByMode = Some [(''1:0'', JNum 16)],
      var_getValueForMode = Method [(''1:0'', JNum 16)]\<rparr>"

definition example_collection :: collection where
  "example_collection =
     \<lparr>coll_id = ''VariableCollectionId:1:1'', coll_name = ''Spacing'', coll_defaultModeId = ''1:0'',
      coll_type = ''VARIABLE_COLLECTION'', coll_modes = Some [''1:0''], coll_addVariable = False\<rparr>"

definition example_newVariable :: variable where
  "example_newVariable =
     \<lparr>var_id = ''VariableID:1:9'', var_name = [], var_resolvedType = [],
      var_remote = False, var_variableCollectionId = [],
      var_defaultModeId = [], var_modes = Some [''2:0''],
      var_valuesByMode = Some [], var_getValueForMode = Method []\<rparr>"

definition example_host :: host where
  "example_host =
     \<lparr>hasVariables = True, nodes = [example_node], selection = [example_node],
      variables = [example_variable], collections = [example_collection],
      newVariable = example_newVariable, faults = []\<rparr>"

definition example_world :: world where
  "example_world = \<lparr>figma = example_host, variableCollectionsCache = None, calls = []\<rparr>"

text \<open>
  What a computation of the read path may do to the world: the host stays as it is, the
  cache is left alone or filled from \<open>null\<close> with what a fetch yields, and the calls made
  are appended, none of them a write or a call to the UI.
\<close>

definition read_step :: "world \<Rightarrow> world \<Rightarrow> bool" where
  "read_step w w' \<longleftrightarrow>
     figma w' = figma w \<and>
     cachedCollections w' = cachedCollections w \<and>
     (variableCollectionsCache w' = variableCollectionsCache w \<or>
      variableCollectionsCache w = None \<and> hasVariables (figma w) \<and>
      variableCollectionsCache w' = Some (fetched (figma w))) \<and>
     (\<exists>d. calls w' = calls w @ d \<and> filter is_write d = [] \<and> filter is_ui d = [])"

text \<open>A node whose gap is bound to a variable that the host does not know.\<close>

definition dangling_node :: node where
  "dangling_node =
     example_node\<lparr>node_boundItemSpacing :=
       BoundObject \<lparr>alias_type = ''VARIABLE_ALIAS'', alias_id = ''VariableID:9:9''\<rparr>\<rparr>"

definition dangling_world :: world where
  "dangling_world =
     example_world\<lparr>figma := example_host\<lparr>nodes := [dangling_node], selection := [dangling_node]\<rparr>\<rparr>"

text \<open>The node bound to the variable of the document, and a host whose binding call throws.\<close>

definition bound_node :: node where
  "bound_node =
     example_node\<lparr>node_boundItemSpacing :=
       BoundObject \<lparr>alias_type = ''VARIABLE_ALIAS'', alias_id = ''VariableID:1:7''\<rparr>\<rparr>"

definition bound_world :: world where
  "bound_world =
     example_world\<lparr>figma := example_host\<lparr>nodes := [bound_node], selection := [bound_node]\<rparr>\<rparr>"








text \<open>The document with the collections already in the cache.\<close>

definition cached_world :: world where
  "cached_world = example_world\<lparr>variableCollectionsCache := Some [example_collection]\<rparr>"

text \<open>A comparison of strings by code points, standing for \<open>localeCompare\<close> in the instances.\<close>

fun codePointCompare :: "string \<Rightarrow> string \<Rightarrow> int" where
  "codePointCompare [] [] = 0"
| "codePointCompare [] (y # ys) = -1"
| "codePointCompare (x # xs) [] = 1"
| "codePointCompare (x # xs) (y # ys) =
     (if x = y then codePointCompare xs ys
      else if (of_char x :: nat) < of_char y then -1 else 1)"

section \<open>How the host calls and the cached lookup run\<close>

lemma host_call_run:
  "host_call op c f w =
     (case map_of (faults (figma w)) op of
        Some e \<Rightarrow> (Inl e, w\<lparr>calls := calls w @ [c]\<rparr>)
      | None \<Rightarrow> (Inr (fst (f (figma w))),
                 w\<lparr>calls := calls w @ [c], figma := snd (f (figma w))\<rparr>))"
  by (simp add: host_call_def Let_def split: option.split prod.split)

lemma getVariableByIdAsync_run:
  "getVariableByIdAsync i w =
     (if \<not> hasVariables (figma w) then (Inl typeError, w)
      else case map_of (faults (figma w)) Op_getVariableByIdAsync of
             Some e \<Rightarrow> (Inl e, w\<lparr>calls := calls w @ [Call_getVariableByIdAsync i]\<rparr>)
           | None \<Rightarrow> (Inr (find (\<lambda>v. var_id v = i) (variables (figma w))),
                      w\<lparr>calls := calls w @ [Call_getVariableByIdAsync i]\<rparr>))"
  by (simp add: getVariableByIdAsync_def variables_call_def host_call_run js_throw_def
      split: option.split)

lemma getAllVariableCollections_run:
  "getAllVariableCollections w =
     (case variableCollectionsCache w of
        Some cs \<Rightarrow> (Inr cs, w)
      | None \<Rightarrow>
          if \<not> hasVariables (figma w) then (Inr [], w)
          else (Inr (fetched (figma w)),
                w\<lparr>calls := calls w @ [Call_getLocalVariableCollectionsAsync],
                  variableCollectionsCache := Some (fetched (figma w))\<rparr>))"
  by (simp add: getAllVariableCollections_def getLocalVariableCollectionsAsync_def
      variables_call_def host_call_run set_cache_def fetched_def js_try_def js_bind_def
      js_return_def js_throw_def split: option.split)

lemma getAllVariableCollections_p0_eq: "getAllVariableCollections_p0 = getAllVariableCollections"
proof
  fix w
  show "getAllVariableCollections_p0 w = getAllVariableCollections w"
    by (simp add: getAllVariableCollections_p0_def getAllVariableCollections_run
        getLocalVariableCollectionsAsync_def variables_call_def host_call_run set_cache_def
        fetched_def js_try_def js_bind_def js_return_def split: option.split)
qed

lemma findCollection_returns: "\<exists>c. fst (findCollection v w) = Inr c"
  by (simp add: findCollection_def getAllVariableCollections_run js_try_def js_bind_def
      js_return_def split: option.split)

lemma withToken_keeps:
  "hasAutoLayout (withToken g v c) = hasAutoLayout g"
  "itemSpacing (withToken g v c) = itemSpacing g"
  "nodeId (withToken g v c) = nodeId g"
  "nodeName (withToken g v c) = nodeName g"
  "nodeType (withToken g v c) = nodeType g"
  "error (withToken g v c) = error g"
  by (simp_all add: withToken_def Let_def)

lemma withToken_value:
  "typeof_number (itemSpacingTokenValue (withToken g v c)) \<or>
   itemSpacingTokenValue (withToken g v c) = JNull"
  by (simp add: withToken_def Let_def)

section \<open>The record built by \<open>getGapInfo\<close>\<close>

lemma getGapInfo_code_invariant:
  assumes "isFrameOrAutoLayout n"
  shows "\<exists>g. fst (getGapInfo n w) = Inr (Some g) \<and>
           (hasAutoLayout g \<longleftrightarrow> node_layoutMode n \<noteq> ''NONE'') \<and>
           (hasAutoLayout g \<longrightarrow>
              itemSpacing g = node_itemSpacing n \<and> nodeId g = node_id n \<and>
              nodeName g = node_name n \<and> nodeType g = node_type n) \<and>
           (typeof_number (itemSpacingTokenValue g) \<or> itemSpacingTokenValue g = JNull)"
  using assms findCollection_returns
  by (simp add: getGapInfo_def getVariableByIdAsync_run js_try_def js_bind_def js_return_def
      noAutoLayoutInfo_def initialGapInfo_def withToken_keeps withToken_value
      split: option.split prod.split sum.split)

lemma collectionName_p0_returns: "\<exists>c. fst (collectionName_p0 v w) = Inr c"
  by (simp add: collectionName_p0_def getAllVariableCollections_p0_eq
      getAllVariableCollections_run js_try_def js_bind_def js_return_def split: option.split)

lemma withToken_p0_keeps:
  "hasAutoLayout (withToken_p0 g v c) = hasAutoLayout g"
  "itemSpacing (withToken_p0 g v c) = itemSpacing g"
  "nodeId (withToken_p0 g v c) = nodeId g"
  "nodeName (withToken_p0 g v c) = nodeName g"
  "nodeType (withToken_p0 g v c) = nodeType g"
  "error (withToken_p0 g v c) = error g"
  by (simp_all add: withToken_p0_def Let_def)

lemma withToken_p0_value:
  "typeof_number (itemSpacingTokenValue (withToken_p0 g v c)) \<or>
   itemSpacingTokenValue (withToken_p0 g v c) = JNull"
  by (simp add: withToken_p0_def Let_def)

lemma getGapInfo_p0_invariant:
  assumes "isFrameOrAutoLayout n"
  shows "\<exists>g. fst (getGapInfo_p0 n w) = Inr (Some g) \<and>
           (hasAutoLayout g \<longleftrightarrow> node_layoutMode n \<noteq> ''NONE'') \<and>
           (hasAutoLayout g \<longrightarrow>
              itemSpacing g = node_itemSpacing n \<and> nodeId g = node_id n \<and>
              nodeName g = node_name n \<and> nodeType g = node_type n) \<and>
           (typeof_number (itemSpacingTokenValue g) \<or> itemSpacingTokenValue g = JNull)"
  using assms collectionName_p0_returns
  by (simp add: getGapInfo_p0_def getVariableByIdAsync_run js_try_def js_bind_def js_return_def
      noAutoLayoutInfo_def createGapInfo_def withToken_p0_keeps withToken_p0_value
      split: option.split prod.split sum.split)

text \<open>
  C10. For a node that \<open>getGapInfo\<close> accepts (a FRAME, COMPONENT, COMPONENT_SET or
  INSTANCE) the function returns a record, and does not throw, whatever the host does.
  In that record \<open>hasAutoLayout\<close> is true exactly when the node's \<open>layoutMode\<close> is not
  \<open>'NONE'\<close>; when it is true, \<open>itemSpacing\<close>, \<open>nodeId\<close>, \<open>nodeName\<close> and
  \<open>nodeType\<close> are those of the node; and \<open>itemSpacingTokenValue\<close> is a number or
  \<open>null\<close>. This holds of \<open>getGapInfo\<close> of src/code.js and of that of unnamed/part_000,
  which builds the record with \<open>createGapInfo\<close>.
\<close>

theorem getGapInfo_invariant:
  assumes "isFrameOrAutoLayout n"
  shows "\<forall>f \<in> {getGapInfo, getGapInfo_p0}.
           \<exists>g. fst (f n w) = Inr (Some g) \<and>
             (hasAutoLayout g \<longleftrightarrow> node_layoutMode n \<noteq> ''NONE'') \<and>
             (hasAutoLayout g \<longrightarrow>
                itemSpacing g = node_itemSpacing n \<and> nodeId g = node_id n \<and>
                nodeName g = node_name n \<and> nodeType g = node_type n) \<and>
             (typeof_number (itemSpacingTokenValue g) \<or> itemSpacingTokenValue g = JNull)"
proof (intro ballI)
  fix f :: "node \<Rightarrow> gapInfo option js"
  assume "f \<in> {getGapInfo, getGapInfo_p0}"
  then consider "f = getGapInfo" | "f = getGapInfo_p0" by blast
  then show "\<exists>g. fst (f n w) = Inr (Some g) \<and>
             (hasAutoLayout g \<longleftrightarrow> node_layoutMode n \<noteq> ''NONE'') \<and>
             (hasAutoLayout g \<longrightarrow>
                itemSpacing g = node_itemSpacing n \<and> nodeId g = node_id n \<and>
                nodeName g = node_name n \<and> nodeType g = node_type n) \<and>
             (typeof_number (itemSpacingTokenValue g) \<or> itemSpacingTokenValue g = JNull)"
  proof cases
    case 1
    show ?thesis unfolding 1 by (rule getGapInfo_code_invariant [OF assms])
  next
    case 2
    show ?thesis unfolding 2 by (rule getGapInfo_p0_invariant [OF assms])
  qed
qed

theorem getGapInfo_invariant_witness:
  "isFrameOrAutoLayout example_node \<and>
   (\<exists>g. fst (getGapInfo example_node example_world) = Inr (Some g) \<and>
        hasAutoLayout g \<and> itemSpacing g = JNum 8 \<and> nodeId g = ''1:2'' \<and>
        nodeName g = ''Card'' \<and> nodeType g = ''FRAME'' \<and>
        (typeof_number (itemSpacingTokenValue g) \<or> itemSpacingTokenValue g = JNull)) \<and>
   (\<exists>g. fst (getGapInfo_p0 example_node example_world) = Inr (Some g) \<and>
        hasAutoLayout g \<and> itemSpacing g = JNum 8 \<and> nodeId g = ''1:2'' \<and>
        nodeName g = ''Card'' \<and> nodeType g = ''FRAME'' \<and>
        (typeof_number (itemSpacingTokenValue g) \<or> itemSpacingTokenValue g = JNull))"
proof -
  have frame: "isFrameOrAutoLayout example_node"
    by (simp add: isFrameOrAutoLayout_def example_node_def)
  have layout: "node_layoutMode example_node \<noteq> ''NONE''"
    "node_itemSpacing example_node = JNum 8" "node_id example_node = ''1:2''"
    "node_name example_node = ''Card''" "node_type example_node = ''FRAME''"
    by (simp_all add: example_node_def)
  note inv = getGapInfo_invariant [OF frame, of example_world]
  from bspec [OF inv, of getGapInfo] layout
  have a: "\<exists>g. fst (getGapInfo example_node example_world) = Inr (Some g) \<and>
        hasAutoLayout g \<and> itemSpacing g = JNum 8 \<and> nodeId g = ''1:2'' \<and>
        nodeName g = ''Card'' \<and> nodeType g = ''FRAME'' \<and>
        (typeof_number (itemSpacingTokenValue g) \<or> itemSpacingTokenValue g = JNull)"
    by auto
  from bspec [OF inv, of getGapInfo_p0] layout
  have b: "\<exists>g. fst (getGapInfo_p0 example_node example_world) = Inr (Some g) \<and>
        hasAutoLayout g \<and> itemSpacing g = JNum 8 \<and> nodeId g = ''1:2'' \<and>
        nodeName g = ''Card'' \<and> nodeType g = ''FRAME'' \<and>
        (typeof_number (itemSpacingTokenValue g) \<or> itemSpacingTokenValue g = JNull)"
    by auto
  from frame a b show ?thesis by blast
qed

section \<open>The list of available tokens\<close>

lemma getLocalVariablesAsync_run:
  "getLocalVariablesAsync w =
     (if \<not> hasVariables (figma w) then (Inl typeError, w)
      else case map_of (faults (figma w)) Op_getLocalVariablesAsync of
             Some e \<Rightarrow> (Inl e, w\<lparr>calls := calls w @ [Call_getLocalVariablesAsync]\<rparr>)
           | None \<Rightarrow> (Inr (filter (\<lambda>(i, v). \<not> var_remote v) (enumerate 0 (variables (figma w)))),
                      w\<lparr>calls := calls w @ [Call_getLocalVariablesAsync]\<rparr>))"
  by (simp add: getLocalVariablesAsync_def variables_call_def host_call_run js_throw_def
      split: option.split)

lemma map_snd_filter_enumerate:
  "map snd (filter (\<lambda>(i, v). P v) (enumerate k xs)) = filter P xs"
  by (induction xs arbitrary: k) auto

lemma getAvailableTokens_run:
  "getAvailableTokens lc w =
     (if \<not> hasVariables (figma w) then (Inr [], w)
      else case map_of (faults (figma w)) Op_getLocalVariablesAsync of
             Some e \<Rightarrow> (Inr [], w\<lparr>calls := calls w @ [Call_getLocalVariablesAsync]\<rparr>)
           | None \<Rightarrow> (Inr (array_sort (\<lambda>a b. lc (token_name a) (token_name b))
                             (floatTokens (figma w))),
                      w\<lparr>calls := calls w @ [Call_getLocalVariablesAsync]\<rparr>))"
  by (simp add: getAvailableTokens_def getLocalVariablesAsync_run js_try_def js_bind_def
      js_return_def map_snd_filter_enumerate floatTokens_def split: option.split)

lemma mset_insert_sorted: "mset (insert_sorted cmp x xs) = add_mset x (mset xs)"
  by (induction xs) auto

lemma mset_array_sort: "mset (array_sort cmp xs) = mset xs"
  by (induction xs) (auto simp: mset_insert_sorted)

lemma set_insert_sorted: "set (insert_sorted cmp x xs) = insert x (set xs)"
  by (induction xs) auto

lemma sorted_insert_sorted:
  assumes total: "\<And>a b. cmp a b \<le> 0 \<or> cmp b a \<le> 0"
    and trans: "\<And>a b c. cmp a b \<le> 0 \<Longrightarrow> cmp b c \<le> 0 \<Longrightarrow> cmp a c \<le> 0"
    and "sorted_wrt (\<lambda>a b. cmp a b \<le> 0) xs"
  shows "sorted_wrt (\<lambda>a b. cmp a b \<le> 0) (insert_sorted cmp x xs)"
  using assms(3)
proof (induction xs)
  case Nil
  then show ?case by simp
next
  case (Cons y ys)
  show ?case
  proof (cases "cmp x y \<le> 0")
    case True
    with Cons.prems show ?thesis using trans by auto
  next
    case False
    then have "cmp y x \<le> 0" using total by blast
    with False Cons show ?thesis by (auto simp: set_insert_sorted)
  qed
qed

lemma sorted_array_sort:
  assumes "\<And>a b. cmp a b \<le> 0 \<or> cmp b a \<le> 0"
    and "\<And>a b c. cmp a b \<le> 0 \<Longrightarrow> cmp b c \<le> 0 \<Longrightarrow> cmp a c \<le> 0"
  shows "sorted_wrt (\<lambda>a b. cmp a b \<le> 0) (array_sort cmp xs)"
proof (induction xs)
  case Nil
  then show ?case by simp
next
  case (Cons x xs)
  from sorted_insert_sorted [of cmp "array_sort cmp xs" x, OF assms Cons.IH]
  show ?case by simp
qed

lemma tokenOf_fields:
  "token_id (tokenOf v) = var_id v"
  "token_name (tokenOf v) = var_name v"
  "typeof_number (token_value (tokenOf v)) \<or> token_value (tokenOf v) = JNull"
  by (simp_all add: tokenOf_def Let_def)

lemma codePointCompare_total: "codePointCompare a b \<le> 0 \<or> codePointCompare b a \<le> 0"
  by (induction a b rule: codePointCompare.induct) auto

lemma codePointCompare_trans:
  "codePointCompare a b \<le> 0 \<Longrightarrow> codePointCompare b c \<le> 0 \<Longrightarrow> codePointCompare a c \<le> 0"
proof (induction a b arbitrary: c rule: codePointCompare.induct)
  case 1
  then show ?case by simp
next
  case (2 y ys)
  then show ?case by (cases c) auto
next
  case (3 x xs)
  then show ?case by simp
next
  case (4 x xs y ys)
  then show ?case by (cases c) (auto split: if_splits)
qed

lemma getAvailableTokens_code_sorted:
  assumes total: "\<forall>a b. lc a b \<le> 0 \<or> lc b a \<le> 0"
    and trans: "\<forall>a b c. lc a b \<le> 0 \<and> lc b c \<le> 0 \<longrightarrow> lc a c \<le> 0"
  shows "\<exists>ts. fst (getAvailableTokens lc w) = Inr ts \<and>
           (if hasVariables (figma w) \<and>
               map_of (faults (figma w)) Op_getLocalVariablesAsync = None
            then mset ts =
                   mset (map tokenOf [v \<leftarrow> variables (figma w).
                                        \<not> var_remote v \<and> var_resolvedType v = ''FLOAT''])
            else ts = []) \<and>
           sorted_wrt (\<lambda>a b. lc (token_name a) (token_name b) \<le> 0) ts \<and>
           (\<forall>t \<in> set ts. typeof_number (token_value t) \<or> token_value t = JNull) \<and>
           (\<forall>v. token_id (tokenOf v) = var_id v \<and> token_name (tokenOf v) = var_name v)"
proof -
  let ?cmp = "\<lambda>a b. lc (token_name a) (token_name b)"
  let ?ts = "array_sort ?cmp (floatTokens (figma w))"
  have ordered: "sorted_wrt (\<lambda>a b. ?cmp a b \<le> 0) ?ts"
    by (rule sorted_array_sort) (use total trans in blast)+
  have "set ?ts = set (floatTokens (figma w))"
    by (metis mset_array_sort set_mset_mset)
  then have numeric: "\<forall>t \<in> set ?ts. typeof_number (token_value t) \<or> token_value t = JNull"
    by (auto simp: floatTokens_def tokenOf_fields)
  have content:
    "mset ?ts = mset (map tokenOf [v \<leftarrow> variables (figma w).
                                     \<not> var_remote v \<and> var_resolvedType v = ''FLOAT''])"
    by (simp add: mset_array_sort floatTokens_def conj_commute)
  show ?thesis
    using ordered numeric content
    by (simp add: getAvailableTokens_run tokenOf_fields(1,2) split: option.split)
qed

lemma getLocalVariables_run:
  "getLocalVariables w =
     (if \<not> hasVariables (figma w) then (Inl typeError, w)
      else case map_of (faults (figma w)) Op_getLocalVariables of
             Some e \<Rightarrow> (Inl e, w\<lparr>calls := calls w @ [Call_getLocalVariables]\<rparr>)
           | None \<Rightarrow> (Inr (filter (\<lambda>(i, v). \<not> var_remote v) (enumerate 0 (variables (figma w)))),
                      w\<lparr>calls := calls w @ [Call_getLocalVariables]\<rparr>))"
  by (simp add: getLocalVariables_def variables_call_def host_call_run js_throw_def
      split: option.split)

lemma getAvailableTokens_p3_run:
  "getAvailableTokens_p3 lc w =
     (if \<not> hasVariables (figma w) then (Inr [], w)
      else case map_of (faults (figma w)) Op_getLocalVariables of
             Some e \<Rightarrow> (Inr [], w\<lparr>calls := calls w @ [Call_getLocalVariables]\<rparr>)
           | None \<Rightarrow> (Inr (array_sort (\<lambda>a b. lc (token_name a) (token_name b))
                             (map tokenOf_p3 [v \<leftarrow> variables (figma w).
                                        \<not> var_remote v \<and> var_resolvedType v = ''FLOAT''])),
                      w\<lparr>calls := calls w @ [Call_getLocalVariables]\<rparr>))"
  by (simp add: getAvailableTokens_p3_def getLocalVariables_run js_try_def js_bind_def
      js_return_def map_snd_filter_enumerate conj_commute split: option.split)

lemma getAvailableTokens_p3_sorted:
  assumes total: "\<forall>a b. lc a b \<le> 0 \<or> lc b a \<le> 0"
    and trans: "\<forall>a b c. lc a b \<le> 0 \<and> lc b c \<le> 0 \<longrightarrow> lc a c \<le> 0"
  shows "\<exists>ts. fst (getAvailableTokens_p3 lc w) = Inr ts \<and>
           (if hasVariables (figma w) \<and>
               map_of (faults (figma w)) Op_getLocalVariables = None
            then mset ts =
                   mset (map tokenOf_p3 [v \<leftarrow> variables (figma w).
                                        \<not> var_remote v \<and> var_resolvedType v = ''FLOAT''])
            else ts = []) \<and>
           sorted_wrt (\<lambda>a b. lc (token_name a) (token_name b) \<le> 0) ts \<and>
           (\<forall>t \<in> set ts. token_value t = JUndefined) \<and>
           (\<forall>v. token_id (tokenOf_p3 v) = var_id v \<and> token_name (tokenOf_p3 v) = var_name v)"
proof -
  let ?cmp = "\<lambda>a b. lc (token_name a) (token_name b)"
  let ?vs = "[v \<leftarrow> variables (figma w). \<not> var_remote v \<and> var_resolvedType v = ''FLOAT'']"
  let ?ts = "array_sort ?cmp (map tokenOf_p3 ?vs)"
  have ordered: "sorted_wrt (\<lambda>a b. ?cmp a b \<le> 0) ?ts"
    by (rule sorted_array_sort) (use total trans in blast)+
  have sets: "set ?ts = set (map tokenOf_p3 ?vs)"
    by (rule mset_eq_setD) (rule mset_array_sort)
  have undef: "\<forall>t \<in> set ?ts. token_value t = JUndefined"
    unfolding sets by (simp add: tokenOf_p3_def)
  have content: "mset ?ts = mset (map tokenOf_p3 ?vs)"
    by (simp add: mset_array_sort)
  show ?thesis
    using ordered undef content
    by (simp add: getAvailableTokens_p3_run tokenOf_p3_def split: option.split)
qed

text \<open>
  C8, amended. \<open>getAvailableTokens\<close> never throws. When \<open>figma.variables\<close> exists and
  the lookup of the local variables (\<open>getLocalVariablesAsync\<close> in src/code.js,
  \<open>getLocalVariables\<close> in unnamed/part_003) does not throw, the list it returns holds
  exactly one entry for each local variable whose \<open>resolvedType\<close> is \<open>'FLOAT'\<close>;
  otherwise it is empty. The list is in ascending order of \<open>localeCompare\<close> on the names,
  \<open>localeCompare\<close> being a consistent comparison (total and transitive). Each entry carries
  the id and the name of its variable. In src/code.js it also carries a value that is a number
  or \<open>null\<close>; in unnamed/part_003 an entry has no \<open>value\<close> property, so that its
  value reads as \<open>undefined\<close>.
\<close>

theorem getAvailableTokens_float_sorted:
  assumes total: "\<forall>a b. lc a b \<le> 0 \<or> lc b a \<le> 0"
    and trans: "\<forall>a b c. lc a b \<le> 0 \<and> lc b c \<le> 0 \<longrightarrow> lc a c \<le> 0"
  shows "(\<exists>ts. fst (getAvailableTokens lc w) = Inr ts \<and>
           (if hasVariables (figma w) \<and>
               map_of (faults (figma w)) Op_getLocalVariablesAsync = None
            then mset ts =
                   mset (map tokenOf [v \<leftarrow> variables (figma w).
                                        \<not> var_remote v \<and> var_resolvedType v = ''FLOAT''])
            else ts = []) \<and>
           sorted_wrt (\<lambda>a b. lc (token_name a) (token_name b) \<le> 0) ts \<and>
           (\<forall>t \<in> set ts. typeof_number (token_value t) \<or> token_value t = JNull) \<and>
           (\<forall>v. token_id (tokenOf v) = var_id v \<and> token_name (tokenOf v) = var_name v)) \<and>
         (\<exists>ts. fst (getAvailableTokens_p3 lc w) = Inr ts \<and>
           (if hasVariables (figma w) \<and>
               map_of (faults (figma w)) Op_getLocalVariables = None
            then mset ts =
                   mset (map tokenOf_p3 [v \<leftarrow> variables (figma w).
                                        \<not> var_remote v \<and> var_resolvedType v = ''FLOAT''])
            else ts = []) \<and>
           sorted_wrt (\<lambda>a b. lc (token_name a) (token_name b) \<le> 0) ts \<and>
           (\<forall>t \<in> set ts. token_value t = JUndefined) \<and>
           (\<forall>v. token_id (tokenOf_p3 v) = var_id v \<and> token_name (tokenOf_p3 v) = var_name v))"
  using getAvailableTokens_code_sorted [OF assms, of w] getAvailableTokens_p3_sorted [OF assms, of w]
  by (rule conjI)

theorem getAvailableTokens_float_sorted_witness:
  "fst (getAvailableTokens codePointCompare example_world) =
     Inr [\<lparr>token_id = ''VariableID:1:7'', token_name = ''spacing-md'', token_value = JNum 16\<rparr>] \<and>
   (\<exists>ts. fst (getAvailableTokens_p3 codePointCompare example_world) = Inr ts \<and>
      mset ts = {#\<lparr>token_id = ''VariableID:1:7'', token_name = ''spacing-md'',
                      token_value = JUndefined\<rparr>#})"
proof -
  have total: "\<forall>a b. codePointCompare a b \<le> 0 \<or> codePointCompare b a \<le> 0"
    using codePointCompare_total by blast
  have trans:
    "\<forall>a b c. codePointCompare a b \<le> 0 \<and> codePointCompare b c \<le> 0 \<longrightarrow> codePointCompare a c \<le> 0"
    using codePointCompare_trans by blast
  have entry: "tokenOf example_variable =
      \<lparr>token_id = ''VariableID:1:7'', token_name = ''spacing-md'', token_value = JNum 16\<rparr>"
    by (simp add: tokenOf_def example_variable_def getValueForMode_def table_get_def)
  have entry3: "tokenOf_p3 example_variable =
      \<lparr>token_id = ''VariableID:1:7'', token_name = ''spacing-md'', token_value = JUndefined\<rparr>"
    by (simp add: tokenOf_p3_def example_variable_def)
  have api: "hasVariables (figma example_world) \<and>
      map_of (faults (figma example_world)) Op_getLocalVariablesAsync = None"
    by (simp add: example_world_def example_host_def)
  have api3: "hasVariables (figma example_world) \<and>
      map_of (faults (figma example_world)) Op_getLocalVariables = None"
    by (simp add: example_world_def example_host_def)
  have floats: "[v \<leftarrow> variables (figma example_world).
                  \<not> var_remote v \<and> var_resolvedType v = ''FLOAT''] = [example_variable]"
    by (simp add: example_world_def example_host_def example_variable_def)
  note both = getAvailableTokens_float_sorted [OF total trans, of example_world]
  from conjunct1 [OF both]
  obtain ts where ts: "fst (getAvailableTokens codePointCompare example_world) = Inr ts"
    "mset ts = mset (map tokenOf [v \<leftarrow> variables (figma example_world).
                  \<not> var_remote v \<and> var_resolvedType v = ''FLOAT''])"
    unfolding if_P [OF api] by blast
  from ts(2) have "mset ts = {#\<lparr>token_id = ''VariableID:1:7'', token_name = ''spacing-md'',
                      token_value = JNum 16\<rparr>#}"
    unfolding floats by (simp add: entry)
  then have "ts = [\<lparr>token_id = ''VariableID:1:7'', token_name = ''spacing-md'',
                      token_value = JNum 16\<rparr>]"
    by (metis mset_single_iff_right mset.simps(1) mset.simps(2))
  with ts(1) have a: "fst (getAvailableTokens codePointCompare example_world) =
     Inr [\<lparr>token_id = ''VariableID:1:7'', token_name = ''spacing-md'', token_value = JNum 16\<rparr>]"
    by simp
  from conjunct2 [OF both]
  obtain us where us: "fst (getAvailableTokens_p3 codePointCompare example_world) = Inr us"
    "mset us = mset (map tokenOf_p3 [v \<leftarrow> variables (figma example_world).
                  \<not> var_remote v \<and> var_resolvedType v = ''FLOAT''])"
    unfolding if_P [OF api3] by blast
  from us(2) have "mset us = {#\<lparr>token_id = ''VariableID:1:7'', token_name = ''spacing-md'',
                      token_value = JUndefined\<rparr>#}"
    unfolding floats by (simp add: entry3)
  with us(1) a show ?thesis by blast
qed

text \<open>
  C8 as stated fails in unnamed/part_003: the entry of a FLOAT variable has no value, neither
  a number nor \<open>null\<close>.
\<close>

theorem getAvailableTokens_value_counterexample:
  "fst (getAvailableTokens_p3 codePointCompare example_world) =
     Inr [\<lparr>token_id = ''VariableID:1:7'', token_name = ''spacing-md'', token_value = JUndefined\<rparr>] \<and>
   \<not> typeof_number JUndefined \<and> JUndefined \<noteq> JNull"
  by (simp add: getAvailableTokens_p3_def getLocalVariables_def variables_call_def host_call_def
      js_try_def js_bind_def js_return_def tokenOf_p3_def example_world_def example_host_def
      example_variable_def)

section \<open>The read path leaves the document alone\<close>

lemma read_step_refl: "read_step w w"
  by (simp add: read_step_def)

lemma read_step_trans: "read_step w w1 \<Longrightarrow> read_step w1 w2 \<Longrightarrow> read_step w w2"
  by (auto simp: read_step_def)

lemma cachedCollections_calls [simp]: "cachedCollections (w\<lparr>calls := c\<rparr>) = cachedCollections w"
  by (simp add: cachedCollections_def split: option.split)

lemma read_step_call:
  "\<not> is_write c \<Longrightarrow> \<not> is_ui c \<Longrightarrow> read_step w (w\<lparr>calls := calls w @ [c]\<rparr>)"
  by (simp add: read_step_def)

lemma read_step_getAll: "read_step w (snd (getAllVariableCollections w))"
  by (simp add: getAllVariableCollections_run read_step_def cachedCollections_def
      split: option.split)

lemma getAll_result: "fst (getAllVariableCollections w) = Inr (cachedCollections w)"
  by (simp add: getAllVariableCollections_run cachedCollections_def split: option.split)

lemma findCollection_run:
  "findCollection v w =
     (if var_variableCollectionId v \<noteq> [] then
        (Inr (find (\<lambda>c. coll_id c = var_variableCollectionId v) (cachedCollections w)),
         snd (getAllVariableCollections w))
      else (Inr None, w))"
  using getAll_result [of w]
  by (cases "getAllVariableCollections w")
     (simp add: findCollection_def js_try_def js_bind_def js_return_def)

lemma read_step_getGapInfo: "read_step w (snd (getGapInfo n w))"
  by (auto simp: getGapInfo_def getVariableByIdAsync_run js_try_def js_bind_def js_return_def
      findCollection_run read_step_refl read_step_call
      intro: read_step_trans [OF read_step_call read_step_getAll]
      split: option.split)

lemma getGapInfo_same:
  "figma w' = figma w \<Longrightarrow> cachedCollections w' = cachedCollections w \<Longrightarrow>
   fst (getGapInfo n w') = fst (getGapInfo n w)"
  by (simp add: getGapInfo_def getVariableByIdAsync_run js_try_def js_bind_def js_return_def
      findCollection_run split: option.split)


lemma read_step_getAvailableTokens: "read_step w (snd (getAvailableTokens lc w))"
  by (simp add: getAvailableTokens_run read_step_refl read_step_call split: option.split)

lemma getAvailableTokens_same:
  "figma w' = figma w \<Longrightarrow> fst (getAvailableTokens lc w') = fst (getAvailableTokens lc w)"
  by (simp add: getAvailableTokens_run split: option.split)

lemma getAvailableTokens_returns: "\<exists>ts. fst (getAvailableTokens lc w) = Inr ts"
  by (simp add: getAvailableTokens_run split: option.split)

section \<open>What a scan does to the world\<close>

lemma scanSelection_run:
  "scanSelection lc w =
     (case selection (figma w) of
        [] \<Rightarrow> (Inr (ScanFailure msg_select_one), w)
      | n # rest \<Rightarrow>
          if rest \<noteq> [] then (Inr (ScanFailure msg_select_single), w)
          else if \<not> isFrameOrAutoLayout n then (Inr (ScanFailure msg_not_frame), w)
          else
            (case fst (getGapInfo n w) of
               Inl e \<Rightarrow> (Inl e, snd (getGapInfo n w))
             | Inr None \<Rightarrow> (Inr (ScanFailure msg_no_info), snd (getGapInfo n w))
             | Inr (Some g) \<Rightarrow>
                 if hasError g then (Inr (ScanFailure (the (error g))), snd (getGapInfo n w))
                 else
                   (case fst (getAvailableTokens lc (snd (getGapInfo n w))) of
                      Inl e \<Rightarrow> (Inl e, snd (getAvailableTokens lc (snd (getGapInfo n w))))
                    | Inr ts \<Rightarrow> (Inr (ScanSuccess g ts),
                                 snd (getAvailableTokens lc (snd (getGapInfo n w)))))))"
  by (simp add: scanSelection_def js_bind_def js_return_def
      split: list.split prod.split sum.split option.split)

lemma read_step_scanSelection: "read_step w (snd (scanSelection lc w))"
proof -
  have "read_step w (snd (getAvailableTokens lc (snd (getGapInfo n w))))" for n
    using read_step_getGapInfo read_step_getAvailableTokens by (rule read_step_trans)
  then show ?thesis
    by (simp add: scanSelection_run read_step_refl read_step_getGapInfo
        split: list.split sum.split option.split)
qed

lemma scanSelection_same:
  assumes "figma w' = figma w" "cachedCollections w' = cachedCollections w"
  shows "fst (scanSelection lc w') = fst (scanSelection lc w)"
proof -
  have g: "fst (getGapInfo n w') = fst (getGapInfo n w)" for n
    using assms by (rule getGapInfo_same)
  have "figma (snd (getGapInfo n w')) = figma (snd (getGapInfo n w))" for n
    using read_step_getGapInfo [of w n] read_step_getGapInfo [of w' n] assms(1)
    by (simp add: read_step_def)
  then have t: "fst (getAvailableTokens lc (snd (getGapInfo n w'))) =
      fst (getAvailableTokens lc (snd (getGapInfo n w)))" for n
    by (rule getAvailableTokens_same)
  show ?thesis
    by (simp add: scanSelection_run assms(1) g t split: list.split sum.split option.split)
qed

text \<open>
  C7. \<open>scanSelection\<close> writes nothing: the host (document, nodes, variables) is the
  same after the call, and none of the host calls it makes is a \<open>createVariable\<close>, a
  \<open>setValueForMode\<close> or a \<open>setBoundVariable\<close>. Of the plugin's own state it leaves
  \<open>variableCollectionsCache\<close> as it was, or fills it, from \<open>null\<close>, with the fetched
  collections. A second call right after the first, on the world the first one left,
  returns the same result.
\<close>

theorem scanSelection_read_only:
  "figma (snd (scanSelection lc w)) = figma w \<and>
   (\<exists>d. calls (snd (scanSelection lc w)) = calls w @ d \<and> filter is_write d = []) \<and>
   (variableCollectionsCache (snd (scanSelection lc w)) = variableCollectionsCache w \<or>
    variableCollectionsCache w = None \<and>
    variableCollectionsCache (snd (scanSelection lc w)) = Some (fetched (figma w))) \<and>
   fst (scanSelection lc (snd (scanSelection lc w))) = fst (scanSelection lc w)"
proof -
  have step: "read_step w (snd (scanSelection lc w))"
    by (rule read_step_scanSelection)
  then have "fst (scanSelection lc (snd (scanSelection lc w))) = fst (scanSelection lc w)"
    by (intro scanSelection_same) (simp_all add: read_step_def)
  with step show ?thesis
    by (auto simp: read_step_def)
qed

section \<open>When a scan succeeds\<close>

lemma getGapInfo_error:
  assumes "isFrameOrAutoLayout n"
  shows "\<exists>g. fst (getGapInfo n w) = Inr (Some g) \<and>
     (hasError g \<longleftrightarrow>
        node_layoutMode n = ''NONE'' \<or>
        (case boundAlias (node_boundItemSpacing n) of
           None \<Rightarrow> False
         | Some a \<Rightarrow> \<not> hasVariables (figma w) \<or>
                     map_of (faults (figma w)) Op_getVariableByIdAsync \<noteq> None \<or>
                     find (\<lambda>v. var_id v = alias_id a) (variables (figma w)) = None))"
  using assms
  by (simp add: getGapInfo_def getVariableByIdAsync_run js_try_def js_bind_def js_return_def
      findCollection_run hasError_def withToken_keeps noAutoLayoutInfo_def initialGapInfo_def
      msg_no_autolayout_selected_def msg_variable_not_found_def msg_resolve_error_def
      split: option.split)

text \<open>
  C2, amended. \<open>scanSelection\<close> never throws. It returns \<open>success: true\<close> with a
  \<open>gapInfo\<close> exactly when the selection is a single node of type FRAME, COMPONENT,
  COMPONENT_SET or INSTANCE whose \<open>layoutMode\<close> is not \<open>'NONE'\<close> and whose gap is
  either not bound to a variable alias or bound to one that resolves (\<open>figma.variables\<close>
  exists, \<open>getVariableByIdAsync\<close> does not throw and finds the variable). In every other
  case it returns \<open>success: false\<close> with a message.
\<close>

theorem scanSelection_outcome:
  "\<exists>r. fst (scanSelection lc w) = Inr r \<and>
        (scan_success r \<longleftrightarrow>
           (\<exists>n. selection (figma w) = [n] \<and> isFrameOrAutoLayout n \<and>
                node_layoutMode n \<noteq> ''NONE'' \<and>
                (case boundAlias (node_boundItemSpacing n) of
                   None \<Rightarrow> True
                 | Some a \<Rightarrow> hasVariables (figma w) \<and>
                     map_of (faults (figma w)) Op_getVariableByIdAsync = None \<and>
                     find (\<lambda>v. var_id v = alias_id a) (variables (figma w)) \<noteq> None)))"
proof (cases "selection (figma w)")
  case Nil
  then show ?thesis by (simp add: scanSelection_run)
next
  case (Cons n rest)
  show ?thesis
  proof (cases "rest = [] \<and> isFrameOrAutoLayout n")
    case False
    with Cons show ?thesis by (auto simp: scanSelection_run)
  next
    case True
    then obtain g where g: "fst (getGapInfo n w) = Inr (Some g)"
      "hasError g \<longleftrightarrow>
        node_layoutMode n = ''NONE'' \<or>
        (case boundAlias (node_boundItemSpacing n) of
           None \<Rightarrow> False
         | Some a \<Rightarrow> \<not> hasVariables (figma w) \<or>
                     map_of (faults (figma w)) Op_getVariableByIdAsync \<noteq> None \<or>
                     find (\<lambda>v. var_id v = alias_id a) (variables (figma w)) = None)"
      using getGapInfo_error by blast
    obtain ts where ts: "fst (getAvailableTokens lc (snd (getGapInfo n w))) = Inr ts"
      using getAvailableTokens_returns by blast
    from Cons True g ts show ?thesis
      by (auto simp: scanSelection_run split: option.splits)
  qed
qed

theorem scanSelection_outcome_witness:
  "\<exists>r. fst (scanSelection codePointCompare example_world) = Inr r \<and> scan_success r"
  using scanSelection_outcome [of codePointCompare example_world]
  by (simp add: example_world_def example_host_def example_node_def isFrameOrAutoLayout_def
      boundAlias_def)

text \<open>
  C2 as stated fails: a single selected FRAME with AutoLayout whose gap is bound to a
  variable that the host does not find yields \<open>success: false\<close>.
\<close>

theorem scanSelection_counterexample:
  "selection (figma dangling_world) = [dangling_node] \<and>
   node_type dangling_node = ''FRAME'' \<and>
   node_layoutMode dangling_node = ''VERTICAL'' \<and>
   fst (scanSelection codePointCompare dangling_world) = Inr (ScanFailure ''Variable no encontrada'')"
  by (simp add: scanSelection_def getGapInfo_def getVariableByIdAsync_def variables_call_def
      host_call_def js_bind_def js_try_def js_return_def dangling_world_def dangling_node_def
      example_world_def example_host_def example_node_def example_variable_def
      isFrameOrAutoLayout_def boundAlias_def hasError_def initialGapInfo_def
      msg_variable_not_found_def)

section \<open>How the write path runs\<close>

lemma getNodeByIdAsync_run:
  "getNodeByIdAsync i w =
     (case map_of (faults (figma w)) Op_getNodeByIdAsync of
        Some e \<Rightarrow> (Inl e, w\<lparr>calls := calls w @ [Call_getNodeByIdAsync i]\<rparr>)
      | None \<Rightarrow> (Inr (find (\<lambda>n. node_id n = i) (nodes (figma w))),
                 w\<lparr>calls := calls w @ [Call_getNodeByIdAsync i]\<rparr>))"
  by (simp add: getNodeByIdAsync_def host_call_run split: option.split)

lemma applyToken_run:
  "applyToken n g vi w =
     (if g = ''itemSpacing'' \<and> node_layoutMode n \<noteq> ''NONE'' then
        (case map_of (faults (figma w)) Op_setBoundVariable of
           Some e \<Rightarrow>
             (Inl e, w\<lparr>calls := calls w @
                [Call_setBoundVariable (node_id n) ''itemSpacing''
                   \<lparr>alias_type = ''VARIABLE_ALIAS'', alias_id = var_id (variables (figma w) ! vi)\<rparr>]\<rparr>)
         | None \<Rightarrow>
             (Inr (LinkSuccess (msg_linked (var_name (variables (figma w) ! vi)))
                     (var_name (variables (figma w) ! vi))
                     (responseValue (variables (figma w) ! vi))),
              w\<lparr>calls := calls w @
                   [Call_setBoundVariable (node_id n) ''itemSpacing''
                      \<lparr>alias_type = ''VARIABLE_ALIAS'', alias_id = var_id (variables (figma w) ! vi)\<rparr>],
                figma := (figma w)\<lparr>nodes :=
                    map (bind_node (node_id n)
                           \<lparr>alias_type = ''VARIABLE_ALIAS'', alias_id = var_id (variables (figma w) ! vi)\<rparr>)
                      (nodes (figma w)),
                  selection :=
                    map (bind_node (node_id n)
                           \<lparr>alias_type = ''VARIABLE_ALIAS'', alias_id = var_id (variables (figma w) ! vi)\<rparr>)
                      (selection (figma w))\<rparr>\<rparr>))
      else (Inr (LinkFailure msg_only_itemSpacing), w))"
  by (simp add: applyToken_def setBoundVariable_def host_call_run js_bind_def js_return_def Let_def
      split: option.split)

lemma createToken_run:
  "createToken n tn tv w =
     (case tn of
        None \<Rightarrow> (Inr (Inl (LinkFailure msg_empty_name)), w)
      | Some name \<Rightarrow>
          if name = [] \<or> trim name = [] then (Inr (Inl (LinkFailure msg_empty_name)), w)
          else if \<not> hasVariables (figma w)
            then (Inr (Inl (LinkFailure (msg_create_error @ exn_message typeError))), w)
          else
            (case map_of (faults (figma w)) Op_createVariable of
               Some e \<Rightarrow>
                 (Inr (Inl (LinkFailure (msg_create_error @ exn_message e))),
                  w\<lparr>calls := calls w @ [Call_createVariable (trim name) ''FLOAT'']\<rparr>)
             | None \<Rightarrow>
                 (case var_modes (newVariable (figma w)) of
                    Some (m # ms) \<Rightarrow>
                      (case map_of (faults (figma w)) Op_setValueForMode of
                         Some e \<Rightarrow>
                           (Inr (Inl (LinkFailure (msg_create_error @ exn_message e))),
                            (created (trim name) w)\<lparr>calls := calls (created (trim name) w) @
                               [Call_setValueForMode (length (variables (figma w))) m (gapValueFor n tv)]\<rparr>)
                       | None \<Rightarrow>
                           (Inr (Inr (length (variables (figma w)))),
                            (created (trim name) w)\<lparr>calls := calls (created (trim name) w) @
                               [Call_setValueForMode (length (variables (figma w))) m (gapValueFor n tv)],
                              figma := (figma (created (trim name) w))\<lparr>variables :=
                                 variables (figma w) @
                                 [store_value m (gapValueFor n tv)
                                    ((newVariable (figma w))\<lparr>var_name := trim name,
                                       var_resolvedType := ''FLOAT'', var_remote := False\<rparr>)]\<rparr>\<rparr>))
                  | _ \<Rightarrow>
                      (Inr (Inl (LinkFailure (msg_create_error @ exn_message typeError))),
                       created (trim name) w))))"
  by (simp add: createToken_def createVariable_def setValueForMode_def readFirstMode_def
      variables_call_def host_call_run js_bind_def js_try_def js_return_def js_throw_def Let_def
      created_def
      split: option.split list.split)


lemma getVariableById_run:
  "getVariableById i w =
     (if \<not> hasVariables (figma w) then (Inl typeError, w)
      else case map_of (faults (figma w)) Op_getVariableById of
             Some e \<Rightarrow> (Inl e, w\<lparr>calls := calls w @ [Call_getVariableById i]\<rparr>)
           | None \<Rightarrow> (Inr (lookup_index (\<lambda>v. var_id v = i) (variables (figma w))),
                      w\<lparr>calls := calls w @ [Call_getVariableById i]\<rparr>))"
  by (simp add: getVariableById_def variables_call_def host_call_run js_throw_def
      split: option.split)

lemma resolveToken_run:
  "resolveToken n tn tid tv w =
     (if \<not> hasVariables (figma w) then (Inl typeError, w)
      else if given tid then
        (case map_of (faults (figma w)) Op_getVariableById of
           Some e \<Rightarrow> (Inl e, w\<lparr>calls := calls w @ [Call_getVariableById (the tid)]\<rparr>)
         | None \<Rightarrow>
             (case lookup_index (\<lambda>v. var_id v = the tid) (variables (figma w)) of
                None \<Rightarrow> (Inr (Inl (LinkFailure msg_token_not_found)),
                          w\<lparr>calls := calls w @ [Call_getVariableById (the tid)]\<rparr>)
              | Some vi \<Rightarrow> (Inr (Inr vi), w\<lparr>calls := calls w @ [Call_getVariableById (the tid)]\<rparr>)))
      else
        (case map_of (faults (figma w)) Op_getLocalVariablesAsync of
           Some e \<Rightarrow> (Inl e, w\<lparr>calls := calls w @ [Call_getLocalVariablesAsync]\<rparr>)
         | None \<Rightarrow>
             (case find (\<lambda>(i, v). Some (var_name v) = tn)
                     (filter (\<lambda>(i, v). \<not> var_remote v) (enumerate 0 (variables (figma w)))) of
                Some (vi, v) \<Rightarrow> (Inr (Inr vi), w\<lparr>calls := calls w @ [Call_getLocalVariablesAsync]\<rparr>)
              | None \<Rightarrow> createToken n tn tv (w\<lparr>calls := calls w @ [Call_getLocalVariablesAsync]\<rparr>))))"
  by (simp add: resolveToken_def getVariableById_run getLocalVariablesAsync_run js_bind_def
      js_return_def split: option.split prod.split)

lemma linkGapToToken_run:
  "linkGapToToken nid tn g tid tv w =
     (case map_of (faults (figma w)) Op_getNodeByIdAsync of
        Some e \<Rightarrow> (Inr (LinkFailure (msg_error @ exn_message e)),
                   w\<lparr>calls := calls w @ [Call_getNodeByIdAsync nid]\<rparr>)
      | None \<Rightarrow>
          (case find (\<lambda>n. node_id n = nid) (nodes (figma w)) of
             None \<Rightarrow> (Inr (LinkFailure msg_node_not_found),
                       w\<lparr>calls := calls w @ [Call_getNodeByIdAsync nid]\<rparr>)
           | Some n \<Rightarrow>
               if \<not> isFrameOrAutoLayout n
               then (Inr (LinkFailure msg_node_not_found),
                     w\<lparr>calls := calls w @ [Call_getNodeByIdAsync nid]\<rparr>)
               else if node_layoutMode n = ''NONE''
               then (Inr (LinkFailure msg_no_autolayout),
                     w\<lparr>calls := calls w @ [Call_getNodeByIdAsync nid]\<rparr>)
               else if \<not> hasVariables (figma w)
               then (Inr (LinkFailure msg_no_variables_api),
                     w\<lparr>calls := calls w @ [Call_getNodeByIdAsync nid]\<rparr>)
               else
                 (case resolveToken n tn tid tv (w\<lparr>calls := calls w @ [Call_getNodeByIdAsync nid]\<rparr>) of
                    (Inl e, w1) \<Rightarrow> (Inr (LinkFailure (msg_error @ exn_message e)), w1)
                  | (Inr (Inl early), w1) \<Rightarrow> (Inr early, w1)
                  | (Inr (Inr vi), w1) \<Rightarrow>
                      (case applyToken n g vi w1 of
                         (Inl e, w2) \<Rightarrow> (Inr (LinkFailure (msg_error @ exn_message e)), w2)
                       | (Inr res, w2) \<Rightarrow> (Inr res, w2)))))"
  by (simp add: linkGapToToken_def getNodeByIdAsync_run js_bind_def js_try_def js_return_def
      split: option.split prod.split sum.split)


lemma lookup_index_Some: "lookup_index P xs = Some i \<Longrightarrow> i < length xs \<and> P (xs ! i)"
  by (induction xs arbitrary: i) (auto split: if_splits)

lemma find_Some_member: "find P xs = Some x \<Longrightarrow> x \<in> set xs \<and> P x"
  by (induction xs) (auto split: if_splits)

lemma find_enumerate_Some:
  assumes "find P (filter Q (enumerate 0 xs)) = Some (i, x)"
  shows "i < length xs \<and> xs ! i = x \<and> P (i, x) \<and> Q (i, x)"
proof -
  from assms have "(i, x) \<in> set (filter Q (enumerate 0 xs))" and "P (i, x)"
    by (auto dest: find_Some_member)
  then show ?thesis
    by (auto simp: in_set_enumerate_eq)
qed

lemma createToken_effect:
  assumes "createToken n tn tv w = (r, w')"
  shows "\<exists>d. frame w d w' \<and>
       distinct (map op_of d) \<and>
       set (map op_of d) \<subseteq> {Some Op_createVariable, Some Op_setValueForMode} \<and>
       nodes (figma w') = nodes (figma w) \<and>
       selection (figma w') = selection (figma w) \<and>
       (case r of
          Inl e \<Rightarrow> False
        | Inr (Inl res) \<Rightarrow> \<not> link_success res
        | Inr (Inr vi) \<Rightarrow>
            (\<forall>c \<in> set d. \<not> threw (figma w) c) \<and>
            Call_createVariable (trim (the tn)) ''FLOAT'' \<in> set d \<and>
            vi = length (variables (figma w)) \<and>
            length (variables (figma w')) = Suc (length (variables (figma w))))"
  using assms
  by (auto simp: createToken_run frame_def created_def threw_def
      split: option.splits list.splits if_splits)

lemma frame_calls [simp]: "frame (w\<lparr>calls := calls w @ cs\<rparr>) d w' = frame w (cs @ d) w'"
  by (auto simp: frame_def)

lemma token_resolved_calls [simp]:
  "token_resolved (w\<lparr>calls := cs\<rparr>) tn tid pre w1 vi = token_resolved w tn tid pre w1 vi"
  by (simp add: token_resolved_def)

lemma resolveToken_effect:
  assumes "resolveToken n tn tid tv w = (r, w')"
  shows "\<exists>d. frame w d w' \<and>
       distinct (map op_of d) \<and>
       set (map op_of d) \<subseteq> {Some Op_getVariableById, Some Op_getLocalVariablesAsync,
                              Some Op_createVariable, Some Op_setValueForMode} \<and>
       nodes (figma w') = nodes (figma w) \<and>
       selection (figma w') = selection (figma w) \<and>
       (case r of
          Inl e \<Rightarrow> True
        | Inr (Inl res) \<Rightarrow> \<not> link_success res
        | Inr (Inr vi) \<Rightarrow>
            (\<forall>c \<in> set d. \<not> threw (figma w) c) \<and> token_resolved w tn tid d w' vi)"
proof -
  let ?found = "find (\<lambda>(i, v). Some (var_name v) = tn)
      (filter (\<lambda>(i, v). \<not> var_remote v) (enumerate 0 (variables (figma w))))"
  let ?w1 = "w\<lparr>calls := calls w @ [Call_getLocalVariablesAsync]\<rparr>"
  consider (novars) "\<not> hasVariables (figma w)"
    | (byid) "hasVariables (figma w)" "given tid"
    | (fault) e where "hasVariables (figma w)" "\<not> given tid"
        "map_of (faults (figma w)) Op_getLocalVariablesAsync = Some e"
    | (found) vi v where "hasVariables (figma w)" "\<not> given tid"
        "map_of (faults (figma w)) Op_getLocalVariablesAsync = None" "?found = Some (vi, v)"
    | (create) "hasVariables (figma w)" "\<not> given tid"
        "map_of (faults (figma w)) Op_getLocalVariablesAsync = None" "?found = None"
    by (cases ?found; cases "map_of (faults (figma w)) Op_getLocalVariablesAsync") auto
  then show ?thesis
  proof cases
    case novars
    with assms show ?thesis by (auto simp: resolveToken_run frame_def)
  next
    case byid
    with assms show ?thesis
      by (auto simp: resolveToken_run frame_def threw_def token_resolved_def
          dest!: lookup_index_Some split: option.splits)
  next
    case fault
    with assms show ?thesis by (auto simp: resolveToken_run frame_def)
  next
    case found
    from find_enumerate_Some [OF found(4)] found(1-3) assms
    show ?thesis
      by (auto simp: resolveToken_run found(4) frame_def threw_def token_resolved_def)
  next
    case create
    with assms have run: "createToken n tn tv ?w1 = (r, w')"
      by (simp add: resolveToken_run)
    from createToken_effect [OF run] obtain d where d:
      "frame w (Call_getLocalVariablesAsync # d) w'"
      "distinct (map op_of d)"
      "set (map op_of d) \<subseteq> {Some Op_createVariable, Some Op_setValueForMode}"
      "nodes (figma w') = nodes (figma w)"
      "selection (figma w') = selection (figma w)"
      "case r of
          Inl e \<Rightarrow> False
        | Inr (Inl res) \<Rightarrow> \<not> link_success res
        | Inr (Inr vi) \<Rightarrow>
            (\<forall>c \<in> set d. \<not> threw (figma w) c) \<and>
            Call_createVariable (trim (the tn)) ''FLOAT'' \<in> set d \<and>
            vi = length (variables (figma w)) \<and>
            length (variables (figma w')) = Suc (length (variables (figma w)))"
      by (auto cong: sum.case_cong)
    have "distinct (map op_of (Call_getLocalVariablesAsync # d))"
      using d(2,3) by auto
    moreover have "set (map op_of (Call_getLocalVariablesAsync # d)) \<subseteq>
      {Some Op_getVariableById, Some Op_getLocalVariablesAsync,
       Some Op_createVariable, Some Op_setValueForMode}"
      using d(3) by auto
    moreover have "case r of
          Inl e \<Rightarrow> True
        | Inr (Inl res) \<Rightarrow> \<not> link_success res
        | Inr (Inr vi) \<Rightarrow>
            (\<forall>c \<in> set (Call_getLocalVariablesAsync # d). \<not> threw (figma w) c) \<and>
            token_resolved w tn tid (Call_getLocalVariablesAsync # d) w' vi"
      using d(6) create
      by (auto simp: token_resolved_def threw_def split: sum.splits)
    ultimately show ?thesis using d(1,4,5) by blast
  qed
qed

lemma applyToken_effect:
  assumes "applyToken n g vi w = (r, w')"
  shows "\<exists>d. frame w d w' \<and>
       variables (figma w') = variables (figma w) \<and>
       (d = [] \<or>
        d = [Call_setBoundVariable (node_id n) ''itemSpacing''
               \<lparr>alias_type = ''VARIABLE_ALIAS'', alias_id = var_id (variables (figma w) ! vi)\<rparr>]) \<and>
       (case r of
          Inl e \<Rightarrow> nodes (figma w') = nodes (figma w) \<and> selection (figma w') = selection (figma w)
        | Inr res \<Rightarrow>
            if link_success res then (\<forall>c \<in> set d. \<not> threw (figma w) c)
            else nodes (figma w') = nodes (figma w) \<and> selection (figma w') = selection (figma w))"
  using assms
  by (auto simp: applyToken_run frame_def threw_def split: option.splits if_splits)

lemma not_bind: "op_of c \<noteq> Some Op_setBoundVariable \<Longrightarrow> \<not> is_bind c"
  by (cases c) simp_all

lemma not_ui: "op_of c \<noteq> None \<Longrightarrow> \<not> is_ui c"
  by (cases c) simp_all

lemma token_resolved_later:
  "token_resolved w tn tid d w1 vi \<Longrightarrow> set d \<subseteq> set pre \<Longrightarrow>
   variables (figma w2) = variables (figma w1) \<Longrightarrow> token_resolved w tn tid pre w2 vi"
  by (auto simp: token_resolved_def)

lemma linkGapToToken_effect:
  "\<exists>res d. fst (linkGapToToken nid tn g tid tv w) = Inr res \<and>
     frame w d (snd (linkGapToToken nid tn g tid tv w)) \<and>
     distinct (map op_of d) \<and>
     filter is_ui d = [] \<and>
     (\<not> link_success res \<longrightarrow>
        nodes (figma (snd (linkGapToToken nid tn g tid tv w))) = nodes (figma w) \<and>
        selection (figma (snd (linkGapToToken nid tn g tid tv w))) = selection (figma w)) \<and>
     (link_success res \<longrightarrow> (\<forall>c \<in> set d. \<not> threw (figma w) c)) \<and>
     ((\<exists>c \<in> set d. is_bind c) \<longrightarrow>
        (\<exists>pre vi. d = pre @ [Call_setBoundVariable nid ''itemSpacing''
                      \<lparr>alias_type = ''VARIABLE_ALIAS'',
                       alias_id = var_id (variables (figma (snd (linkGapToToken nid tn g tid tv w))) ! vi)\<rparr>] \<and>
                   filter is_bind pre = [] \<and>
                   token_resolved w tn tid pre (snd (linkGapToToken nid tn g tid tv w)) vi))"
  (is "\<exists>res d. ?P res d")
proof -
  let ?L = "linkGapToToken nid tn g tid tv w"
  let ?w0 = "w\<lparr>calls := calls w @ [Call_getNodeByIdAsync nid]\<rparr>"
  let ?c0 = "Call_getNodeByIdAsync nid"
  let ?node = "find (\<lambda>n. node_id n = nid) (nodes (figma w))"
  show ?thesis
  proof (cases "map_of (faults (figma w)) Op_getNodeByIdAsync = None \<and>
      (\<exists>n. ?node = Some n \<and> isFrameOrAutoLayout n \<and> node_layoutMode n \<noteq> ''NONE'') \<and>
      hasVariables (figma w)")
    case False
    then have "\<exists>m. ?L = (Inr (LinkFailure m), ?w0)"
      by (auto simp: linkGapToToken_run split: option.split)
    then obtain m where "?L = (Inr (LinkFailure m), ?w0)" by blast
    then have "?P (LinkFailure m) [?c0]"
      by (simp add: frame_def)
    then show ?thesis by blast
  next
    case True
    then obtain n where n: "?node = Some n" "isFrameOrAutoLayout n" "node_layoutMode n \<noteq> ''NONE''"
      by blast
    from n(1) have nid: "node_id n = nid"
      by (auto dest: find_Some_member)
    obtain r1 w1 where R: "resolveToken n tn tid tv ?w0 = (r1, w1)"
      by (cases "resolveToken n tn tid tv ?w0")
    from resolveToken_effect [OF R] obtain d1 where d1:
      "frame w (?c0 # d1) w1"
      "distinct (map op_of d1)"
      "set (map op_of d1) \<subseteq> {Some Op_getVariableById, Some Op_getLocalVariablesAsync,
                              Some Op_createVariable, Some Op_setValueForMode}"
      "nodes (figma w1) = nodes (figma w)"
      "selection (figma w1) = selection (figma w)"
      "case r1 of
          Inl e \<Rightarrow> True
        | Inr (Inl res) \<Rightarrow> \<not> link_success res
        | Inr (Inr vi) \<Rightarrow>
            (\<forall>c \<in> set d1. \<not> threw (figma w) c) \<and> token_resolved w tn tid d1 w1 vi"
      by (auto cong: sum.case_cong)
    have nobind: "filter is_bind (?c0 # d1) = []"
      using d1(3) by (auto simp: filter_empty_conv intro!: not_bind)
    have dist1: "distinct (map op_of (?c0 # d1))"
      using d1(2,3) by auto
    have noui: "filter is_ui (?c0 # d1) = []"
      using d1(3) by (auto simp: filter_empty_conv intro!: not_ui)
    have run: "?L = (case (r1, w1) of
                    (Inl e, w1) \<Rightarrow> (Inr (LinkFailure (msg_error @ exn_message e)), w1)
                  | (Inr (Inl early), w1) \<Rightarrow> (Inr early, w1)
                  | (Inr (Inr vi), w1) \<Rightarrow>
                      (case applyToken n g vi w1 of
                         (Inl e, w2) \<Rightarrow> (Inr (LinkFailure (msg_error @ exn_message e)), w2)
                       | (Inr res, w2) \<Rightarrow> (Inr res, w2)))"
      using True n by (simp add: linkGapToToken_run R)
    show ?thesis
    proof (cases r1)
      case (Inl e)
      with run have "?L = (Inr (LinkFailure (msg_error @ exn_message e)), w1)" by simp
      then have "?P (LinkFailure (msg_error @ exn_message e)) (?c0 # d1)"
        using d1(1,4,5) dist1 nobind noui by (simp add: filter_empty_conv)
      then show ?thesis by blast
    next
      case (Inr r)
      show ?thesis
      proof (cases r)
        case (Inl early)
        with Inr run have "?L = (Inr early, w1)" by simp
        moreover from Inl Inr d1(6) have "\<not> link_success early" by simp
        ultimately have "?P early (?c0 # d1)"
          using d1(1,4,5) dist1 nobind noui by (simp add: filter_empty_conv)
        then show ?thesis by blast
      next
        case (Inr vi)
        with \<open>r1 = Inr r\<close> d1(6) have ok1: "\<forall>c \<in> set d1. \<not> threw (figma w) c"
          and res1: "token_resolved w tn tid d1 w1 vi" by simp_all
        obtain r2 w2 where A: "applyToken n g vi w1 = (r2, w2)"
          by (cases "applyToken n g vi w1")
        from applyToken_effect [OF A] obtain d2 where d2:
          "frame w1 d2 w2" "variables (figma w2) = variables (figma w1)"
          "d2 = [] \<or> d2 = [Call_setBoundVariable (node_id n) ''itemSpacing''
               \<lparr>alias_type = ''VARIABLE_ALIAS'', alias_id = var_id (variables (figma w1) ! vi)\<rparr>]"
          "case r2 of
             Inl e \<Rightarrow> nodes (figma w2) = nodes (figma w1) \<and> selection (figma w2) = selection (figma w1)
           | Inr res \<Rightarrow>
               if link_success res then (\<forall>c \<in> set d2. \<not> threw (figma w1) c)
               else nodes (figma w2) = nodes (figma w1) \<and> selection (figma w2) = selection (figma w1)"
          by auto
        have fr: "frame w (?c0 # d1 @ d2) w2"
          using d1(1) d2(1) by (auto simp: frame_def)
        have dist: "distinct (map op_of (?c0 # d1 @ d2))"
          using dist1 d1(3) d2(3) by auto
        have noui2: "filter is_ui (?c0 # d1 @ d2) = []"
          using noui d2(3) by auto
        have same_faults: "threw (figma w1) c = threw (figma w) c" for c
          using d1(1) by (simp add: frame_def threw_def split: option.split)
        have mine: "threw (figma w) ?c0 = False"
          using True by (simp add: threw_def)
        have bound: "(\<exists>c \<in> set (?c0 # d1 @ d2). is_bind c) \<longrightarrow>
          (\<exists>pre vi. ?c0 # d1 @ d2 = pre @ [Call_setBoundVariable nid ''itemSpacing''
                      \<lparr>alias_type = ''VARIABLE_ALIAS'',
                       alias_id = var_id (variables (figma w2) ! vi)\<rparr>] \<and>
                   filter is_bind pre = [] \<and> token_resolved w tn tid pre w2 vi)"
        proof
          assume "\<exists>c \<in> set (?c0 # d1 @ d2). is_bind c"
          with nobind have "d2 \<noteq> []" by (auto simp: filter_empty_conv)
          with d2(3) have d2eq: "d2 = [Call_setBoundVariable nid ''itemSpacing''
               \<lparr>alias_type = ''VARIABLE_ALIAS'', alias_id = var_id (variables (figma w2) ! vi)\<rparr>]"
            by (simp add: nid d2(2))
          have "token_resolved w tn tid (?c0 # d1) w2 vi"
            by (rule token_resolved_later [OF res1 _ d2(2)]) auto
          with d2eq nobind show "\<exists>pre vi. ?c0 # d1 @ d2 = pre @ [Call_setBoundVariable nid ''itemSpacing''
                      \<lparr>alias_type = ''VARIABLE_ALIAS'',
                       alias_id = var_id (variables (figma w2) ! vi)\<rparr>] \<and>
                   filter is_bind pre = [] \<and> token_resolved w tn tid pre w2 vi"
            by (intro exI [of _ "?c0 # d1"] exI [of _ vi]) simp
        qed
        show ?thesis
        proof (cases r2)
          case (Inl e)
          with run \<open>r1 = Inr r\<close> \<open>r = Inr vi\<close> A
          have "?L = (Inr (LinkFailure (msg_error @ exn_message e)), w2)" by simp
          then have "?P (LinkFailure (msg_error @ exn_message e)) (?c0 # d1 @ d2)"
            using fr dist noui2 bound d2(4) d1(4,5) Inl by simp
          then show ?thesis by blast
        next
          case (Inr res)
          with run \<open>r1 = Inr r\<close> \<open>r = Inr vi\<close> A
          have "?L = (Inr res, w2)" by simp
          then have "?P res (?c0 # d1 @ d2)"
            using fr dist noui2 bound d2(4) d1(4,5) Inr ok1 mine same_faults
            by (auto split: if_splits)
          then show ?thesis by blast
        qed
      qed
    qed
  qed
qed

section \<open>How the write path of part_000 runs\<close>

lemma find_local_None:
  "find (\<lambda>(i, v). Some (var_name v) = tn)
     (filter (\<lambda>(i, v). \<not> var_remote v) (enumerate k vs)) = None \<longleftrightarrow>
   (\<forall>v \<in> set vs. \<not> var_remote v \<longrightarrow> Some (var_name v) \<noteq> tn)"
  by (induction vs arbitrary: k) auto

lemma validCollection_p0_run:
  "validCollection_p0 cid w =
     (if given cid then
        (Inr (case find (\<lambda>c. coll_id c = the cid) (cachedCollections w) of
                Some c \<Rightarrow> cid | None \<Rightarrow> None),
         snd (getAllVariableCollections w))
      else (Inr None, w))"
  using getAll_result [of w]
  by (cases "getAllVariableCollections w")
     (simp add: validCollection_p0_def getAllVariableCollections_p0_eq js_try_def js_bind_def
        js_return_def split: option.split)

lemma addToCollection_p0_returns: "\<exists>w'. addToCollection_p0 v vi w = (Inr (), w')"
  by (cases "getAllVariableCollections w")
     (auto simp: addToCollection_p0_def getAllVariableCollections_p0_eq js_try_def js_bind_def
        js_return_def addVariable_def host_call_run set_cache_def split: option.split sum.split prod.split)

lemma js_try_returns:
  assumes "\<And>e w. \<exists>x w'. h e w = (Inr x, w')"
  shows "\<exists>x w'. js_try m h w = (Inr x, w')"
  using assms by (cases "m w") (auto simp: js_try_def split: sum.split)

lemma js_try_cases:
  assumes "js_try m h w = (r, w')"
  shows "(\<exists>x. r = Inr x \<and> m w = (Inr x, w')) \<or> (\<exists>e w0. m w = (Inl e, w0) \<and> h e w0 = (r, w'))"
  using assms by (cases "m w") (auto simp: js_try_def split: sum.splits)

lemma js_bind_cases:
  assumes "js_bind m f w = (r, w')"
  shows "(\<exists>e. r = Inl e \<and> m w = (Inl e, w')) \<or> (\<exists>x w0. m w = (Inr x, w0) \<and> f x w0 = (r, w'))"
  using assms by (cases "m w") (auto simp: js_bind_def split: sum.splits)

lemma create_body_result:
  assumes "js_bind (createVariable nm ty) (\<lambda>vi.
           js_bind (readFirstMode vi) (\<lambda>m.
           js_bind (setValueForMode vi m gv) (\<lambda>_.
           js_bind (addToCollection_p0 vc vi) (\<lambda>_.
           js_return (Inr vi))))) w = (Inr x, w')"
  shows "\<exists>vi. x = Inr vi"
proof -
  from js_bind_cases [OF assms] obtain vi w0 where
    1: "js_bind (readFirstMode vi) (\<lambda>m.
           js_bind (setValueForMode vi m gv) (\<lambda>_.
           js_bind (addToCollection_p0 vc vi) (\<lambda>_.
           js_return (Inr vi)))) w0 = (Inr x, w')" by auto
  from js_bind_cases [OF 1] obtain m w1 where
    2: "js_bind (setValueForMode vi m gv) (\<lambda>_.
           js_bind (addToCollection_p0 vc vi) (\<lambda>_.
           js_return (Inr vi))) w1 = (Inr x, w')" by auto
  from js_bind_cases [OF 2] obtain w2 where
    3: "js_bind (addToCollection_p0 vc vi) (\<lambda>_. js_return (Inr vi)) w2 = (Inr x, w')" by auto
  from js_bind_cases [OF 3] have "x = Inr vi" by (auto simp: js_return_def)
  then show ?thesis by blast
qed


lemma validCollection_p0_returns: "\<exists>vc w1. validCollection_p0 cid w = (Inr vc, w1)"
  by (simp add: validCollection_p0_run)

lemma createToken_p0_cache:
  assumes "createToken_p0 n tn tv cid w = (r, w')"
  shows "case r of
           Inl e \<Rightarrow> False
         | Inr (Inl res) \<Rightarrow> \<not> link_success res
         | Inr (Inr vi) \<Rightarrow> variableCollectionsCache w' = None"
proof (cases "tn = None \<or> the tn = [] \<or> trim (the tn) = []")
  case True
  with assms show ?thesis
    by (auto simp: createToken_p0_def js_return_def split: option.splits)
next
  case False
  then obtain name where name: "tn = Some name" "name \<noteq> []" "trim name \<noteq> []" by auto
  obtain vc w1 where v: "validCollection_p0 cid w = (Inr vc, w1)"
    using validCollection_p0_returns by blast
  let ?create = "js_bind (createVariable (trim name) ''FLOAT'') (\<lambda>vi.
                  js_bind (readFirstMode vi) (\<lambda>m.
                  js_bind (setValueForMode vi m (gapValueFor n tv)) (\<lambda>_.
                  js_bind (addToCollection_p0 vc vi) (\<lambda>_.
                  js_return (Inr vi)))))"
  let ?handler = "\<lambda>createError.
                    js_return (Inl (LinkFailure (msg_create_error @ exn_message createError)))"
  let ?rest = "\<lambda>r. case r of
                     Inl early \<Rightarrow> js_return (Inl early)
                   | Inr vi \<Rightarrow> js_bind (set_cache None) (\<lambda>_. js_return (Inr vi))"
  have unfold: "createToken_p0 n tn tv cid w = js_bind (js_try ?create ?handler) ?rest w1"
    using name v by (simp add: createToken_p0_def js_bind_def Let_def)
  obtain x w2 where b: "js_try ?create ?handler w1 = (x, w2)"
    by (cases "js_try ?create ?handler w1")
  from js_try_cases [OF b] have x: "(\<exists>vi. x = Inr (Inr vi)) \<or> (\<exists>e. x = Inr (Inl (LinkFailure e)))"
    using create_body_result by (fastforce simp: js_return_def)
  from assms unfold b have "?rest (projr x) w2 = (r, w')" if "\<exists>y. x = Inr y"
    using that by (auto simp: js_bind_def)
  with x show ?thesis
    by (auto simp: js_return_def js_bind_def set_cache_def)
qed


lemma getVariableRefByIdAsync_run:
  "getVariableRefByIdAsync i w =
     (if \<not> hasVariables (figma w) then (Inl typeError, w)
      else case map_of (faults (figma w)) Op_getVariableByIdAsync of
             Some e \<Rightarrow> (Inl e, w\<lparr>calls := calls w @ [Call_getVariableByIdAsync i]\<rparr>)
           | None \<Rightarrow> (Inr (lookup_index (\<lambda>v. var_id v = i) (variables (figma w))),
                      w\<lparr>calls := calls w @ [Call_getVariableByIdAsync i]\<rparr>))"
  by (simp add: getVariableRefByIdAsync_def variables_call_def host_call_run js_throw_def
      split: option.split)

lemma resolveToken_p0_cache:
  assumes "resolveToken_p0 n tn tid tv cid w = (r, w')"
  shows "(given tid \<or> (\<exists>v \<in> set (variables (figma w)). \<not> var_remote v \<and> Some (var_name v) = tn)
            \<longrightarrow> variableCollectionsCache w' = variableCollectionsCache w) \<and>
         (case r of
            Inl e \<Rightarrow> True
          | Inr (Inl res) \<Rightarrow> \<not> link_success res
          | Inr (Inr vi) \<Rightarrow>
              \<not> given tid \<and> (\<forall>v \<in> set (variables (figma w)). \<not> var_remote v \<longrightarrow> Some (var_name v) \<noteq> tn)
                \<longrightarrow> variableCollectionsCache w' = None)"
proof (cases "given tid")
  case True
  with assms show ?thesis
    by (auto simp: resolveToken_p0_def getVariableRefByIdAsync_run js_try_def js_bind_def
        js_return_def split: option.splits if_splits)
next
  case False
  let ?found = "find (\<lambda>(i, v). Some (var_name v) = tn)
      (filter (\<lambda>(i, v). \<not> var_remote v) (enumerate 0 (variables (figma w))))"
  let ?w1 = "w\<lparr>calls := calls w @ [Call_getLocalVariablesAsync]\<rparr>"
  show ?thesis
  proof (cases "hasVariables (figma w) \<and> map_of (faults (figma w)) Op_getLocalVariablesAsync = None \<and> ?found = None")
    case True
    then have none: "\<forall>v \<in> set (variables (figma w)). \<not> var_remote v \<longrightarrow> Some (var_name v) \<noteq> tn"
      by (simp add: find_local_None)
    from True False assms have "createToken_p0 n tn tv cid ?w1 = (r, w')"
      by (simp add: resolveToken_p0_def getLocalVariablesAsync_run js_bind_def)
    from createToken_p0_cache [OF this] none \<open>\<not> given tid\<close> show ?thesis
      by (auto split: sum.splits)
  next
    case other: False
    with False assms have 1: "variableCollectionsCache w' = variableCollectionsCache w"
      and 2: "case r of Inl e \<Rightarrow> True | Inr (Inl res) \<Rightarrow> False
                | Inr (Inr vi) \<Rightarrow> ?found \<noteq> None"
      by (auto simp: resolveToken_p0_def getLocalVariablesAsync_run js_bind_def js_return_def
          split: option.splits if_splits)
    from 2 have "case r of Inl e \<Rightarrow> True | Inr (Inl res) \<Rightarrow> \<not> link_success res
          | Inr (Inr vi) \<Rightarrow>
              \<not> given tid \<and> (\<forall>v \<in> set (variables (figma w)). \<not> var_remote v \<longrightarrow> Some (var_name v) \<noteq> tn)
                \<longrightarrow> variableCollectionsCache w' = None"
      by (auto simp: find_local_None split: sum.splits)
    with 1 show ?thesis by simp
  qed
qed

lemma applyToken_p0_cache:
  "variableCollectionsCache (snd (applyToken_p0 n g vi w)) = variableCollectionsCache w"
  by (simp add: applyToken_p0_def setBoundVariable_def host_call_run js_bind_def js_return_def
      Let_def split: option.split)

lemma linkGapToToken_p0_run:
  "linkGapToToken_p0 nid tn g tid tv cid w =
     (case map_of (faults (figma w)) Op_getNodeByIdAsync of
        Some e \<Rightarrow> (Inr (LinkFailure (msg_error @ exn_message e)),
                   w\<lparr>calls := calls w @ [Call_getNodeByIdAsync nid]\<rparr>)
      | None \<Rightarrow>
          (case find (\<lambda>n. node_id n = nid) (nodes (figma w)) of
             None \<Rightarrow> (Inr (LinkFailure msg_node_not_found),
                       w\<lparr>calls := calls w @ [Call_getNodeByIdAsync nid]\<rparr>)
           | Some n \<Rightarrow>
               if \<not> isFrameOrAutoLayout n
               then (Inr (LinkFailure msg_node_not_found),
                     w\<lparr>calls := calls w @ [Call_getNodeByIdAsync nid]\<rparr>)
               else if node_layoutMode n = ''NONE''
               then (Inr (LinkFailure msg_no_autolayout),
                     w\<lparr>calls := calls w @ [Call_getNodeByIdAsync nid]\<rparr>)
               else if \<not> hasVariables (figma w)
               then (Inr (LinkFailure msg_no_variables_api),
                     w\<lparr>calls := calls w @ [Call_getNodeByIdAsync nid]\<rparr>)
               else
                 (case resolveToken_p0 n tn tid tv cid (w\<lparr>calls := calls w @ [Call_getNodeByIdAsync nid]\<rparr>) of
                    (Inl e, w1) \<Rightarrow> (Inr (LinkFailure (msg_error @ exn_message e)), w1)
                  | (Inr (Inl early), w1) \<Rightarrow> (Inr early, w1)
                  | (Inr (Inr vi), w1) \<Rightarrow>
                      (case applyToken_p0 n g vi w1 of
                         (Inl e, w2) \<Rightarrow> (Inr (LinkFailure (msg_error @ exn_message e)), w2)
                       | (Inr res, w2) \<Rightarrow> (Inr res, w2)))))"
  by (simp add: linkGapToToken_p0_def getNodeByIdAsync_run js_bind_def js_try_def js_return_def
      split: option.split prod.split sum.split)

lemma linkGapToToken_p0_cache:
  "\<exists>res. fst (linkGapToToken_p0 nid tn g tid tv cid w) = Inr res \<and>
     (given tid \<or> (\<exists>v \<in> set (variables (figma w)). \<not> var_remote v \<and> Some (var_name v) = tn)
        \<longrightarrow> variableCollectionsCache (snd (linkGapToToken_p0 nid tn g tid tv cid w)) =
            variableCollectionsCache w) \<and>
     (link_success res \<and> \<not> given tid \<and>
      (\<forall>v \<in> set (variables (figma w)). \<not> var_remote v \<longrightarrow> Some (var_name v) \<noteq> tn)
        \<longrightarrow> variableCollectionsCache (snd (linkGapToToken_p0 nid tn g tid tv cid w)) = None)"
proof -
  let ?w0 = "w\<lparr>calls := calls w @ [Call_getNodeByIdAsync nid]\<rparr>"
  have rc: "(given tid \<or> (\<exists>v \<in> set (variables (figma w)). \<not> var_remote v \<and> Some (var_name v) = tn)
            \<longrightarrow> variableCollectionsCache w1 = variableCollectionsCache w) \<and>
         (case r of
            Inl e \<Rightarrow> True
          | Inr (Inl res) \<Rightarrow> \<not> link_success res
          | Inr (Inr vi) \<Rightarrow>
              \<not> given tid \<and> (\<forall>v \<in> set (variables (figma w)). \<not> var_remote v \<longrightarrow> Some (var_name v) \<noteq> tn)
                \<longrightarrow> variableCollectionsCache w1 = None)"
    if "resolveToken_p0 n tn tid tv cid ?w0 = (r, w1)" for n r w1
    using resolveToken_p0_cache [OF that] by (simp cong: sum.case_cong)
  have ac: "variableCollectionsCache w2 = variableCollectionsCache w1"
    if "applyToken_p0 n g vi w1 = (r2, w2)" for n vi w1 r2 w2
    using applyToken_p0_cache [of n g vi w1] that by simp
  show ?thesis
    by (auto simp: linkGapToToken_p0_run split: option.split prod.split sum.split
        dest!: rc dest: ac)
qed

section \<open>The write path of part_002 returns and leaves the UI alone\<close>























section \<open>The concrete instances are evaluated by unfolding\<close>

lemmas example_defs = example_world_def example_host_def example_node_def example_variable_def
  example_collection_def example_newVariable_def

lemmas eval_defs = linkGapToToken_def resolveToken_def createToken_def applyToken_def
  readFirstMode_def gapValueFor_def responseValue_def getValueForMode_def table_get_def
  store_value_def bind_node_def given_def trim_def js_whitespace_def isFrameOrAutoLayout_def
  getNodeByIdAsync_def getVariableById_def getVariableByIdAsync_def getLocalVariablesAsync_def
  getLocalVariableCollectionsAsync_def createVariable_def setValueForMode_def setBoundVariable_def
  host_call_def variables_call_def js_bind_def js_try_def js_return_def js_throw_def Let_def

lemmas eval_p0_defs = linkGapToToken_p0_def resolveToken_p0_def createToken_p0_def
  applyToken_p0_def validCollection_p0_def addToCollection_p0_def getVariableRefByIdAsync_def
  addVariable_def getAllVariableCollections_p0_def getVariableValue_p0_def getDefaultModeId_def
  set_cache_def firstModeId_def cached_world_def



section \<open>The cache and the write path\<close>

text \<open>
  C3, amended. \<open>linkGapToToken\<close> of src/code.js never assigns to
  \<open>variableCollectionsCache\<close>: after every call, whatever its result, the cache is what
  it was before the call. \<open>linkGapToToken\<close> of unnamed/part_000 always returns a
  result; it leaves the cache as it was when a \<open>tokenId\<close> is given or a local variable
  of the name exists (an existing token is bound, or the call fails), and the cache is
  \<open>null\<close> after a successful call that had to create the variable. The cache is the only
  module-level variable of the program.
\<close>

theorem linkGapToToken_keeps_cache:
  "variableCollectionsCache (snd (linkGapToToken nid tn g tid tv w)) = variableCollectionsCache w \<and>
   (\<exists>res. fst (linkGapToToken_p0 nid tn g tid tv cid w) = Inr res \<and>
     (given tid \<or> (\<exists>v \<in> set (variables (figma w)). \<not> var_remote v \<and> Some (var_name v) = tn)
        \<longrightarrow> variableCollectionsCache (snd (linkGapToToken_p0 nid tn g tid tv cid w)) =
            variableCollectionsCache w) \<and>
     (link_success res \<and> \<not> given tid \<and>
      (\<forall>v \<in> set (variables (figma w)). \<not> var_remote v \<longrightarrow> Some (var_name v) \<noteq> tn)
        \<longrightarrow> variableCollectionsCache (snd (linkGapToToken_p0 nid tn g tid tv cid w)) = None))"
proof -
  have "variableCollectionsCache (snd (linkGapToToken nid tn g tid tv w)) = variableCollectionsCache w"
    using linkGapToToken_effect [of nid tn g tid tv w] by (auto simp: frame_def)
  with linkGapToToken_p0_cache [of nid tn g tid tv cid w] show ?thesis by simp
qed

theorem linkGapToToken_keeps_cache_witness:
  "variableCollectionsCache cached_world = Some [example_collection] \<and>
   fst (linkGapToToken_p0 ''1:2'' (Some ''gap-8'') ''itemSpacing'' None JNull None cached_world) =
     Inr (LinkSuccess (msg_linked ''gap-8'') ''gap-8'' (JNum 8)) \<and>
   variableCollectionsCache
     (snd (linkGapToToken_p0 ''1:2'' (Some ''gap-8'') ''itemSpacing'' None JNull None cached_world)) = None \<and>
   variableCollectionsCache
     (snd (linkGapToToken ''1:2'' (Some ''gap-8'') ''itemSpacing'' None JNull cached_world)) =
     Some [example_collection]"
proof -
  let ?L = "linkGapToToken_p0 ''1:2'' (Some ''gap-8'') ''itemSpacing'' None JNull None cached_world"
  have r: "fst ?L = Inr (LinkSuccess (msg_linked ''gap-8'') ''gap-8'' (JNum 8))"
    by (simp add: eval_defs eval_p0_defs example_defs)
  have h: "\<not> given None"
    "\<forall>v \<in> set (variables (figma cached_world)). \<not> var_remote v \<longrightarrow> Some (var_name v) \<noteq> Some ''gap-8''"
    by (simp_all add: given_def cached_world_def example_defs)
  have c: "variableCollectionsCache cached_world = Some [example_collection]"
    by (simp add: cached_world_def)
  from linkGapToToken_keeps_cache [of "''1:2''" "Some ''gap-8''" "''itemSpacing''" None JNull cached_world None] r h c
  show ?thesis by simp
qed

text \<open>
  C3 as stated fails, in both files: the cache is filled, and a link to an existing token
  that follows completes with the cache still filled.
\<close>

theorem linkGapToToken_cache_counterexample:
  "variableCollectionsCache (snd (scanSelection codePointCompare bound_world)) = Some [example_collection] \<and>
   link_success (projr (fst (linkGapToToken ''1:2'' None ''itemSpacing'' (Some ''VariableID:1:7'') JNull
      (snd (scanSelection codePointCompare bound_world))))) \<and>
   variableCollectionsCache (snd (linkGapToToken ''1:2'' None ''itemSpacing'' (Some ''VariableID:1:7'') JNull
      (snd (scanSelection codePointCompare bound_world)))) = Some [example_collection] \<and>
   link_success (projr (fst (linkGapToToken_p0 ''1:2'' None ''itemSpacing'' (Some ''VariableID:1:7'') JNull None
      cached_world))) \<and>
   variableCollectionsCache (snd (linkGapToToken_p0 ''1:2'' None ''itemSpacing'' (Some ''VariableID:1:7'') JNull None
      cached_world)) = Some [example_collection]"
  by (simp add: eval_defs eval_p0_defs example_defs bound_world_def bound_node_def
      scanSelection_def getGapInfo_def boundAlias_def findCollection_def getAllVariableCollections_def
      getAvailableTokens_def hasError_def withToken_def initialGapInfo_def)

section \<open>Binding comes after resolution\<close>

text \<open>
  C4. \<open>linkGapToToken\<close> always returns a result. Whenever the result is a failure, the
  variable bindings of the nodes are what they were. And when the calls of an execution
  contain a \<open>setBoundVariable\<close>, it is the last of them, it is made on the node asked for
  and on \<open>'itemSpacing'\<close>, no other binding call comes before it, and its alias carries
  the id of a variable that the calls before it have resolved by id, found by name or created.
\<close>

theorem linkGapToToken_binds_after_resolution:
  "\<exists>res d. fst (linkGapToToken nid tn g tid tv w) = Inr res \<and>
     calls (snd (linkGapToToken nid tn g tid tv w)) = calls w @ d \<and>
     (\<not> link_success res \<longrightarrow>
        nodes (figma (snd (linkGapToToken nid tn g tid tv w))) = nodes (figma w) \<and>
        selection (figma (snd (linkGapToToken nid tn g tid tv w))) = selection (figma w)) \<and>
     ((\<exists>c \<in> set d. is_bind c) \<longrightarrow>
        (\<exists>pre vi. d = pre @ [Call_setBoundVariable nid ''itemSpacing''
                      \<lparr>alias_type = ''VARIABLE_ALIAS'',
                       alias_id = var_id (variables (figma (snd (linkGapToToken nid tn g tid tv w))) ! vi)\<rparr>] \<and>
                   filter is_bind pre = [] \<and>
                   token_resolved w tn tid pre (snd (linkGapToToken nid tn g tid tv w)) vi))"
  using linkGapToToken_effect [of nid tn g tid tv w] unfolding frame_def by blast

theorem linkGapToToken_binds_after_resolution_witness:
  "calls (snd (linkGapToToken ''1:2'' (Some ''gap-8'') ''itemSpacing'' None JNull example_world)) =
     [Call_getNodeByIdAsync ''1:2'', Call_getLocalVariablesAsync,
      Call_createVariable ''gap-8'' ''FLOAT'', Call_setValueForMode 1 ''2:0'' (JNum 8)] @
     [Call_setBoundVariable ''1:2'' ''itemSpacing''
        \<lparr>alias_type = ''VARIABLE_ALIAS'', alias_id = ''VariableID:1:9''\<rparr>] \<and>
   token_resolved example_world (Some ''gap-8'') None
     [Call_getNodeByIdAsync ''1:2'', Call_getLocalVariablesAsync,
      Call_createVariable ''gap-8'' ''FLOAT'', Call_setValueForMode 1 ''2:0'' (JNum 8)]
     (snd (linkGapToToken ''1:2'' (Some ''gap-8'') ''itemSpacing'' None JNull example_world)) 1"
  using linkGapToToken_binds_after_resolution [of "''1:2''" "Some ''gap-8''" "''itemSpacing''" None JNull example_world]
  by (simp add: eval_defs example_defs token_resolved_def)

section \<open>Errors are caught, and nothing is tried twice\<close>






section \<open>An empty token name\<close>

lemma find_bind_node:
  "find (\<lambda>n. node_id n = i) ns = Some n \<Longrightarrow>
   find (\<lambda>n. node_id n = i) (map (bind_node i a) ns) = Some (n\<lparr>node_boundItemSpacing := BoundObject a\<rparr>)"
  by (induction ns) (auto simp: bind_node_def)

lemma linkGapToToken_code_empty_name:
  assumes "\<not> given tid"
    and "tn = None \<or> trim (the tn) = []"
    and "\<forall>v \<in> set (variables (figma w)). \<not> var_remote v \<longrightarrow> Some (var_name v) \<noteq> tn"
  shows "(\<exists>m. fst (linkGapToToken nid tn g tid tv w) = Inr (LinkFailure m)) \<and>
         figma (snd (linkGapToToken nid tn g tid tv w)) = figma w \<and>
         (map_of (faults (figma w)) Op_getNodeByIdAsync = None \<and>
          (\<exists>n. find (\<lambda>n. node_id n = nid) (nodes (figma w)) = Some n \<and>
               isFrameOrAutoLayout n \<and> node_layoutMode n \<noteq> ''NONE'') \<and>
          hasVariables (figma w) \<and>
          map_of (faults (figma w)) Op_getLocalVariablesAsync = None
          \<longrightarrow> fst (linkGapToToken nid tn g tid tv w) = Inr (LinkFailure msg_empty_name))"
proof -
  have none: "find (\<lambda>(i, v). Some (var_name v) = tn)
     (filter (\<lambda>(i, v). \<not> var_remote v) (enumerate 0 (variables (figma w)))) = None"
    using assms(3) by (simp add: find_local_None)
  have blank: "createToken n tn tv w1 = (Inr (Inl (LinkFailure msg_empty_name)), w1)" for n w1
    using assms(2) by (auto simp: createToken_run trim_def split: option.split)
  have res: "resolveToken n tn tid tv w1 =
      (if \<not> hasVariables (figma w1) then (Inl typeError, w1)
       else case map_of (faults (figma w1)) Op_getLocalVariablesAsync of
              Some e \<Rightarrow> (Inl e, w1\<lparr>calls := calls w1 @ [Call_getLocalVariablesAsync]\<rparr>)
            | None \<Rightarrow> (Inr (Inl (LinkFailure msg_empty_name)),
                       w1\<lparr>calls := calls w1 @ [Call_getLocalVariablesAsync]\<rparr>))"
    if "variables (figma w1) = variables (figma w)" for n w1
    using assms(1) none that by (simp add: resolveToken_run blank split: option.split)
  show ?thesis
    by (simp add: linkGapToToken_run res split: option.split)
qed

lemma createToken_p0_blank:
  "tn = None \<or> trim (the tn) = [] \<Longrightarrow>
   createToken_p0 n tn tv cid w1 = (Inr (Inl (LinkFailure msg_empty_name)), w1)"
  by (auto simp: createToken_p0_def js_return_def trim_def split: option.split)

lemma linkGapToToken_p0_empty_name:
  assumes "\<not> given tid"
    and "tn = None \<or> trim (the tn) = []"
    and "\<forall>v \<in> set (variables (figma w)). \<not> var_remote v \<longrightarrow> Some (var_name v) \<noteq> tn"
  shows "(\<exists>m. fst (linkGapToToken_p0 nid tn g tid tv cid w) = Inr (LinkFailure m)) \<and>
         figma (snd (linkGapToToken_p0 nid tn g tid tv cid w)) = figma w \<and>
         (map_of (faults (figma w)) Op_getNodeByIdAsync = None \<and>
          (\<exists>n. find (\<lambda>n. node_id n = nid) (nodes (figma w)) = Some n \<and>
               isFrameOrAutoLayout n \<and> node_layoutMode n \<noteq> ''NONE'') \<and>
          hasVariables (figma w) \<and>
          map_of (faults (figma w)) Op_getLocalVariablesAsync = None
          \<longrightarrow> fst (linkGapToToken_p0 nid tn g tid tv cid w) = Inr (LinkFailure msg_empty_name))"
proof -
  have none: "find (\<lambda>(i, v). Some (var_name v) = tn)
     (filter (\<lambda>(i, v). \<not> var_remote v) (enumerate 0 (variables (figma w)))) = None"
    using assms(3) by (simp add: find_local_None)
  have res: "resolveToken_p0 n tn tid tv cid w1 =
      (if \<not> hasVariables (figma w1) then (Inl typeError, w1)
       else case map_of (faults (figma w1)) Op_getLocalVariablesAsync of
              Some e \<Rightarrow> (Inl e, w1\<lparr>calls := calls w1 @ [Call_getLocalVariablesAsync]\<rparr>)
            | None \<Rightarrow> (Inr (Inl (LinkFailure msg_empty_name)),
                       w1\<lparr>calls := calls w1 @ [Call_getLocalVariablesAsync]\<rparr>))"
    if "variables (figma w1) = variables (figma w)" for n w1
    using assms(1) none that
    by (simp add: resolveToken_p0_def getLocalVariablesAsync_run js_bind_def
        createToken_p0_blank [OF assms(2)] split: option.split)
  show ?thesis
    by (simp add: linkGapToToken_p0_run res split: option.split)
qed

text \<open>
  C9, amended. A call to \<open>linkGapToToken\<close> with no \<open>tokenId\<close>, a \<open>tokenName\<close> that
  is absent, empty or only white space, and no local variable of that name returns a failure,
  creates no variable and leaves every binding as it was (the host is unchanged). When the
  call gets past the guards that come first (\<open>getNodeByIdAsync\<close> does not throw and finds a
  node of an accepted type with AutoLayout, \<open>figma.variables\<close> exists, and
  \<open>getLocalVariablesAsync\<close> does not throw), the message is that of the empty name.
  This holds of src/code.js and of unnamed/part_000.
\<close>

theorem linkGapToToken_empty_name:
  assumes "\<not> given tid"
    and "tn = None \<or> trim (the tn) = []"
    and "\<forall>v \<in> set (variables (figma w)). \<not> var_remote v \<longrightarrow> Some (var_name v) \<noteq> tn"
  shows "(\<exists>m. fst (linkGapToToken nid tn g tid tv w) = Inr (LinkFailure m)) \<and>
         figma (snd (linkGapToToken nid tn g tid tv w)) = figma w \<and>
         (\<exists>m. fst (linkGapToToken_p0 nid tn g tid tv cid w) = Inr (LinkFailure m)) \<and>
         figma (snd (linkGapToToken_p0 nid tn g tid tv cid w)) = figma w \<and>
         (map_of (faults (figma w)) Op_getNodeByIdAsync = None \<and>
          (\<exists>n. find (\<lambda>n. node_id n = nid) (nodes (figma w)) = Some n \<and>
               isFrameOrAutoLayout n \<and> node_layoutMode n \<noteq> ''NONE'') \<and>
          hasVariables (figma w) \<and>
          map_of (faults (figma w)) Op_getLocalVariablesAsync = None
          \<longrightarrow> fst (linkGapToToken nid tn g tid tv w) = Inr (LinkFailure msg_empty_name) \<and>
              fst (linkGapToToken_p0 nid tn g tid tv cid w) = Inr (LinkFailure msg_empty_name))"
  using linkGapToToken_code_empty_name [OF assms, of nid g tv]
    linkGapToToken_p0_empty_name [OF assms, of nid g tv cid]
  by blast

theorem linkGapToToken_empty_name_witness:
  "linkGapToToken ''1:2'' (Some ''   '') ''itemSpacing'' None JNull example_world =
     (Inr (LinkFailure msg_empty_name),
      example_world\<lparr>calls := [Call_getNodeByIdAsync ''1:2'', Call_getLocalVariablesAsync]\<rparr>) \<and>
   fst (linkGapToToken_p0 ''1:2'' (Some ''   '') ''itemSpacing'' None JNull None example_world) =
     Inr (LinkFailure msg_empty_name)"
proof -
  let ?L = "linkGapToToken ''1:2'' (Some ''   '') ''itemSpacing'' None JNull example_world"
  have h: "\<not> given None" "Some ''   '' = None \<or> trim (the (Some ''   '')) = []"
    "\<forall>v \<in> set (variables (figma example_world)). \<not> var_remote v \<longrightarrow> Some (var_name v) \<noteq> Some ''   ''"
    by (simp_all add: given_def trim_def js_whitespace_def example_defs)
  have g: "map_of (faults (figma example_world)) Op_getNodeByIdAsync = None \<and>
          (\<exists>n. find (\<lambda>n. node_id n = ''1:2'') (nodes (figma example_world)) = Some n \<and>
               isFrameOrAutoLayout n \<and> node_layoutMode n \<noteq> ''NONE'') \<and>
          hasVariables (figma example_world) \<and>
          map_of (faults (figma example_world)) Op_getLocalVariablesAsync = None"
    by (simp add: example_defs isFrameOrAutoLayout_def)
  from linkGapToToken_empty_name [OF h, of "''1:2''" "''itemSpacing''" JNull None] g
  have "fst ?L = Inr (LinkFailure msg_empty_name)" "figma (snd ?L) = figma example_world"
    and p0: "fst (linkGapToToken_p0 ''1:2'' (Some ''   '') ''itemSpacing'' None JNull None example_world) =
      Inr (LinkFailure msg_empty_name)"
    by blast+
  moreover have "calls (snd ?L) = [Call_getNodeByIdAsync ''1:2'', Call_getLocalVariablesAsync]"
    by (simp add: eval_defs example_defs)
  moreover have "variableCollectionsCache (snd ?L) = variableCollectionsCache example_world"
    by (simp add: eval_defs example_defs)
  ultimately show ?thesis
    using p0 by (cases ?L) (simp add: example_world_def)
qed

text \<open>
  C9 as stated fails: with a node id that the document does not have, the message is that of
  the missing node.
\<close>

theorem linkGapToToken_empty_name_counterexample:
  "fst (linkGapToToken ''9:9'' (Some ''   '') ''itemSpacing'' None JNull example_world) =
     Inr (LinkFailure ''No se pudo encontrar el nodo seleccionado'')"
  by (simp add: eval_defs example_defs msg_node_not_found_def)

section \<open>Finding or creating the token\<close>





section \<open>The UI message handler\<close>







lemma closePlugin_run: "closePlugin w = (Inr (), w\<lparr>calls := calls w @ [Call_closePlugin]\<rparr>)"
  by (simp add: closePlugin_def)





end
